theory Spec2Isabelle
  imports Complex_Main "HOL-Library.AList"
begin

section \<open>Python values and built-ins\<close>

text \<open>
  The AIS pipeline of \<^verbatim>\<open>vessel_tracker/api/live_vessels.py\<close> passes JSON scalars around in
  dictionaries. A value is \<^verbatim>\<open>None\<close>, a bool, an int, a float, a string, or a
  \<^verbatim>\<open>datetime\<close> (produced only by \<^verbatim>\<open>datetime.now()\<close>). Floats are idealised as reals: no
  rounding, overflow, infinities or NaN. Strings are lists of ASCII characters.

  Three built-ins are not modelled but taken as parameters: parsing a string with
  \<^verbatim>\<open>float(s)\<close> (\<open>None\<close> stands for \<^verbatim>\<open>ValueError\<close>), and rendering a float or a datetime
  with \<^verbatim>\<open>str\<close>.
\<close>

datatype py_error = TypeError | ValueError | AttributeError | KeyError

datatype pyval = PNone | PBool bool | PInt int | PFloat real | PStr string | PDatetime real

record builtins =
  float_of_str :: "string \<Rightarrow> real option"
  str_of_float :: "real \<Rightarrow> string"
  str_of_datetime :: "real \<Rightarrow> string"

text \<open>A plain instance of the built-ins, for evaluating the model on concrete inputs
  that hold no float to render and no string to parse.\<close>

definition no_parse :: "string \<Rightarrow> real option" where
  "no_parse s = None"

definition no_render :: "real \<Rightarrow> string" where
  "no_render r = []"

definition plain_builtins :: builtins where
  "plain_builtins = \<lparr>float_of_str = no_parse, str_of_float = no_render, str_of_datetime = no_render\<rparr>"

text \<open>Truth value testing: \<^verbatim>\<open>if v\<close>, \<^verbatim>\<open>not v\<close>, \<^verbatim>\<open>a or b\<close>, \<^verbatim>\<open>a and b\<close>.\<close>

fun truthy :: "pyval \<Rightarrow> bool" where
  "truthy PNone = False"
| "truthy (PBool b) = b"
| "truthy (PInt i) = (i \<noteq> 0)"
| "truthy (PFloat r) = (r \<noteq> 0)"
| "truthy (PStr s) = (s \<noteq> [])"
| "truthy (PDatetime t) = True"

definition py_or :: "pyval \<Rightarrow> pyval \<Rightarrow> pyval" where
  "py_or a b = (if truthy a then a else b)"

text \<open>\<^verbatim>\<open>isinstance(v, int)\<close>; \<^verbatim>\<open>bool\<close> is a subclass of \<^verbatim>\<open>int\<close>.\<close>

fun is_int :: "pyval \<Rightarrow> bool" where
  "is_int (PInt i) = True"
| "is_int (PBool b) = True"
| "is_int v = False"

subsection \<open>Decimal rendering of integers\<close>

definition digit_char :: "nat \<Rightarrow> char" where
  "digit_char d = ''0123456789'' ! d"

fun str_nat :: "nat \<Rightarrow> string" where
  "str_nat n = (if n < 10 then [digit_char n] else str_nat (n div 10) @ [digit_char (n mod 10)])"

declare str_nat.simps [simp del]

definition str_int :: "int \<Rightarrow> string" where
  "str_int i = (if i < 0 then CHR ''-'' # str_nat (nat (- i)) else str_nat (nat i))"

text \<open>\<^verbatim>\<open>str(v)\<close> and \<^verbatim>\<open>f"{v}"\<close>.\<close>

fun py_str :: "builtins \<Rightarrow> pyval \<Rightarrow> string" where
  "py_str env PNone = ''None''"
| "py_str env (PBool b) = (if b then ''True'' else ''False'')"
| "py_str env (PInt i) = str_int i"
| "py_str env (PFloat r) = str_of_float env r"
| "py_str env (PStr s) = s"
| "py_str env (PDatetime t) = str_of_datetime env t"

text \<open>\<^verbatim>\<open>float(v)\<close>: \<^verbatim>\<open>TypeError\<close> on \<^verbatim>\<open>None\<close> and datetimes, \<^verbatim>\<open>ValueError\<close> on a string
  that is no number.\<close>

fun py_float :: "builtins \<Rightarrow> pyval \<Rightarrow> py_error + real" where
  "py_float env PNone = Inl TypeError"
| "py_float env (PBool b) = Inr (if b then 1 else 0)"
| "py_float env (PInt i) = Inr (real_of_int i)"
| "py_float env (PFloat r) = Inr r"
| "py_float env (PStr s) = (case float_of_str env s of None \<Rightarrow> Inl ValueError | Some r \<Rightarrow> Inr r)"
| "py_float env (PDatetime t) = Inl TypeError"

subsection \<open>Strings\<close>

text \<open>\<^verbatim>\<open>str.isspace\<close> on ASCII: tab, line feed, vertical tab, form feed, carriage return,
  the four separators \<^verbatim>\<open>0x1c..0x1f\<close> and the space.\<close>

definition py_isspace :: "char \<Rightarrow> bool" where
  "py_isspace c = (of_char c \<in> {9, 10, 11, 12, 13, 28, 29, 30, 31, 32 :: nat})"

definition strip :: "string \<Rightarrow> string" where
  "strip s = rev (dropWhile py_isspace (rev (dropWhile py_isspace s)))"

definition startswith :: "string \<Rightarrow> string \<Rightarrow> bool" where
  "startswith s p = (take (length p) s = p)"

text \<open>\<^verbatim>\<open>p in s\<close> on strings.\<close>

fun contains :: "string \<Rightarrow> string \<Rightarrow> bool" where
  "contains [] p = (p = [])"
| "contains (c # s) p = (startswith (c # s) p \<or> contains s p)"

subsection \<open>Dictionaries\<close>

text \<open>A dictionary with string keys. \<open>d k = Some PNone\<close> is a key present with value
  \<^verbatim>\<open>None\<close>; \<open>d k = None\<close> is a missing key. \<^verbatim>\<open>d.get(k)\<close> does not tell them apart,
  \<^verbatim>\<open>d.update(e)\<close> (\<open>d ++ e\<close>) does.\<close>

type_synonym pydict = "string \<rightharpoonup> pyval"

definition dget :: "pydict \<Rightarrow> string \<Rightarrow> pyval" where
  "dget d k = (case d k of None \<Rightarrow> PNone | Some v \<Rightarrow> v)"

definition dget_or :: "pydict \<Rightarrow> string \<Rightarrow> pyval \<Rightarrow> pyval" where
  "dget_or d k dflt = (case d k of None \<Rightarrow> dflt | Some v \<Rightarrow> v)"

definition and_then :: "'e + 'a \<Rightarrow> ('a \<Rightarrow> 'e + 'b) \<Rightarrow> 'e + 'b" where
  "and_then r f = (case r of Inl e \<Rightarrow> Inl e | Inr a \<Rightarrow> f a)"

section \<open>ChangeGate: \<^verbatim>\<open>should_update_vessel\<close>\<close>

text \<open>
  \<^verbatim>\<open>vessel_cache\<close> is a process-wide \<^verbatim>\<open>dict\<close> from cache key to the \<^verbatim>\<open>time.time()\<close> of the
  last accepted write. It is modelled as an association list in insertion order, which
  is what \<^verbatim>\<open>vessel_cache.items()\<close> iterates and what the stable sort of the eviction sees.
\<close>

type_synonym vessel_cache = "(string \<times> real) list"

definition MAX_CACHE_SIZE :: nat where
  "MAX_CACHE_SIZE = 10000"

text \<open>\<^verbatim>\<open>dict(pairs)\<close>: later pairs overwrite earlier ones with the same key.\<close>

definition dict_of :: "(string \<times> real) list \<Rightarrow> vessel_cache" where
  "dict_of ps = fold (\<lambda>kv d. AList.update (fst kv) (snd kv) d) ps []"

text \<open>\<^verbatim>\<open>sorted(vessel_cache.items(), key=lambda x: x[1], reverse=True)\<close>: descending by
  timestamp; Python's sort is stable also under \<^verbatim>\<open>reverse=True\<close>, so entries with equal
  timestamps keep their order.\<close>

definition sorted_cache :: "vessel_cache \<Rightarrow> (string \<times> real) list" where
  "sorted_cache cache = sort_key (\<lambda>kv. - snd kv) cache"

text \<open>Lines 201-205: the eviction that runs before the cache is consulted.\<close>

definition evict :: "vessel_cache \<Rightarrow> vessel_cache" where
  "evict cache =
     (if length cache > MAX_CACHE_SIZE then dict_of (take 5000 (sorted_cache cache)) else cache)"

text \<open>Lines 215-224: the position test. Any \<^verbatim>\<open>ValueError\<close> or \<^verbatim>\<open>TypeError\<close> of the four
  conversions is swallowed by the \<^verbatim>\<open>except\<close> clause and the test counts as failed. A
  missing coordinate of the existing record defaults to 0.\<close>

definition position_changed :: "builtins \<Rightarrow> pydict \<Rightarrow> pydict \<Rightarrow> bool" where
  "position_changed env new_data existing_record =
     (truthy (dget new_data ''latitude'') \<and> truthy (dget new_data ''longitude'') \<and>
      (case py_float env (dget new_data ''latitude'') of Inl e \<Rightarrow> False | Inr lat \<Rightarrow>
       case py_float env (dget_or existing_record ''ais_last_position_lat'' (PInt 0)) of Inl e \<Rightarrow> False | Inr lat0 \<Rightarrow>
       case py_float env (dget new_data ''longitude'') of Inl e \<Rightarrow> False | Inr lon \<Rightarrow>
       case py_float env (dget_or existing_record ''ais_last_position_lon'' (PInt 0)) of Inl e \<Rightarrow> False | Inr lon0 \<Rightarrow>
         \<bar>lat - lat0\<bar> > 0.001 \<or> \<bar>lon - lon0\<bar> > 0.001))"

text \<open>\<^verbatim>\<open>last_update and (current_time - last_update) < 30\<close>: a stored timestamp of 0.0 is
  falsy and counts as no timestamp.\<close>

definition rate_limited :: "real option \<Rightarrow> real \<Rightarrow> bool" where
  "rate_limited last_update current_time =
     (case last_update of None \<Rightarrow> False | Some t \<Rightarrow> t \<noteq> 0 \<and> current_time - t < 30)"

text \<open>\<^verbatim>\<open>not last_update or (current_time - last_update) > 300\<close>.\<close>

definition refresh_due :: "real option \<Rightarrow> real \<Rightarrow> bool" where
  "refresh_due last_update current_time =
     (case last_update of None \<Rightarrow> True | Some t \<Rightarrow> t = 0 \<or> current_time - t > 300)"

text \<open>
  \<^verbatim>\<open>should_update_vessel(mmsi, new_data, existing_record)\<close>, with the reading of
  \<^verbatim>\<open>time.time()\<close> and the cache passed in; it returns the decision and the cache it leaves.
  \<open>existing_record = None\<close> is Python's \<^verbatim>\<open>None\<close>; a row fetched from the registry is a
  non-empty dictionary, hence truthy.
\<close>

definition should_update_vessel ::
  "builtins \<Rightarrow> real \<Rightarrow> string \<Rightarrow> pydict \<Rightarrow> pydict option \<Rightarrow> vessel_cache \<Rightarrow> bool \<times> vessel_cache" where
  "should_update_vessel env current_time mmsi new_data existing_record cache =
     (case existing_record of
        None \<Rightarrow> (True, cache)
      | Some er \<Rightarrow>
          let cache_key = ''vessel_update_'' @ mmsi;
              cache1 = evict cache;
              last_update = map_of cache1 cache_key
          in if rate_limited last_update current_time then (False, cache1)
             else if position_changed env new_data er
               then (True, AList.update cache_key current_time cache1)
             else if refresh_due last_update current_time
               then (True, AList.update cache_key current_time cache1)
             else (False, cache1))"

section \<open>Preparing registry operations\<close>

text \<open>
  What a call of one of the \<^verbatim>\<open>prepare_*\<close> functions reads from its surroundings:
  \<^verbatim>\<open>time.time()\<close> (read by the gate), \<^verbatim>\<open>datetime.now()\<close> (one reading stands for the
  few that a call takes in a row) and \<^verbatim>\<open>frappe.generate_hash(length=10)\<close>.
\<close>

record ambient =
  clock :: real
  wall :: real
  fresh_hash :: string

text \<open>
  An update is either the SQL form of \<^verbatim>\<open>prepare_vessel_update\<close>, kept as its
  \<^verbatim>\<open>SET column = %(placeholder)s\<close> clauses and the placeholder dictionary (the row is
  addressed by \<^verbatim>\<open>WHERE name = %(vessel_name)s\<close>), or the data form of
  \<^verbatim>\<open>prepare_mmsi_update\<close>: the \<^verbatim>\<open>name\<close> of the row and the fields to set. An insert is
  its dictionary of column values.
\<close>

type_synonym sql_acc = "(string \<times> string) list \<times> pydict"

datatype update_op = SqlUpdate "(string \<times> string) list" pydict | DataUpdate pyval pydict

type_synonym insert_op = pydict

definition upd_float ::
  "builtins \<Rightarrow> bool \<Rightarrow> pyval \<Rightarrow> string \<Rightarrow> string \<Rightarrow> sql_acc \<Rightarrow> py_error + sql_acc" where
  "upd_float env cond v col ph acc =
     (if cond
      then (case py_float env v of
              Inl e \<Rightarrow> Inl e
            | Inr x \<Rightarrow> Inr (fst acc @ [(col, ph)], (snd acc)(ph \<mapsto> PFloat x)))
      else Inr acc)"

definition upd_status :: "pydict \<Rightarrow> sql_acc \<Rightarrow> sql_acc" where
  "upd_status vessel_data acc =
     (if truthy (dget vessel_data ''status'')
      then (fst acc @ [(''ais_status'', ''status'')], (snd acc)(''status'' \<mapsto> dget vessel_data ''status''))
      else acc)"

text \<open>Line 262: \<^verbatim>\<open>d[:250] if len(str(d)) > 250 else d\<close>; slicing a value that is not a
  string raises \<^verbatim>\<open>TypeError\<close>.\<close>

definition upd_destination :: "builtins \<Rightarrow> pydict \<Rightarrow> sql_acc \<Rightarrow> py_error + sql_acc" where
  "upd_destination env vessel_data acc =
     (let d = dget vessel_data ''destination'' in
      if truthy d
      then (if length (py_str env d) > 250
            then (case d of
                    PStr s \<Rightarrow> Inr (fst acc @ [(''ais_destination'', ''destination'')],
                                    (snd acc)(''destination'' \<mapsto> PStr (take 250 s)))
                  | _ \<Rightarrow> Inl TypeError)
            else Inr (fst acc @ [(''ais_destination'', ''destination'')],
                      (snd acc)(''destination'' \<mapsto> d)))
      else Inr acc)"

text \<open>Lines 264-268: the name is written only over an empty or placeholder name.
  \<^verbatim>\<open>.startswith\<close> and \<^verbatim>\<open>.strip\<close> raise \<^verbatim>\<open>AttributeError\<close> on a value that is not a
  string.\<close>

definition clean_name :: "pyval \<Rightarrow> py_error + string" where
  "clean_name n = (case n of PStr s \<Rightarrow> Inr (take 140 (strip s)) | _ \<Rightarrow> Inl AttributeError)"

definition name_replaceable :: "pyval \<Rightarrow> py_error + bool" where
  "name_replaceable en =
     (if \<not> truthy en then Inr True
      else (case en of PStr s \<Rightarrow> Inr (startswith s ''Unknown Vessel'') | _ \<Rightarrow> Inl AttributeError))"

definition upd_name :: "pydict \<Rightarrow> pydict \<Rightarrow> sql_acc \<Rightarrow> py_error + sql_acc" where
  "upd_name vessel_data existing_record acc =
     (if truthy (dget vessel_data ''vessel_name'')
      then and_then (name_replaceable (dget existing_record ''vessel_name'')) (\<lambda>ok.
             if ok
             then and_then (clean_name (dget vessel_data ''vessel_name'')) (\<lambda>nm.
                    Inr (fst acc @ [(''vessel_name'', ''new_vessel_name'')],
                         (snd acc)(''new_vessel_name'' \<mapsto> PStr nm)))
             else Inr acc)
      else Inr acc)"

text \<open>A genuine IMO number: \<^verbatim>\<open>v.get('imo_number') and isinstance(v.get('imo_number'), int)\<close>.\<close>

definition genuine_imo :: "pyval \<Rightarrow> bool" where
  "genuine_imo v = (truthy v \<and> is_int v)"

definition upd_imo :: "builtins \<Rightarrow> pydict \<Rightarrow> sql_acc \<Rightarrow> sql_acc" where
  "upd_imo env vessel_data acc =
     (if genuine_imo (dget vessel_data ''imo_number'')
      then (fst acc @ [(''imo_number'', ''imo_number'')],
            (snd acc)(''imo_number'' \<mapsto> PStr (py_str env (dget vessel_data ''imo_number''))))
      else acc)"

text \<open>\<^verbatim>\<open>prepare_vessel_update(mmsi, vessel_data, existing_record)\<close>.\<close>

definition prepare_vessel_update ::
  "builtins \<Rightarrow> ambient \<Rightarrow> string \<Rightarrow> pydict \<Rightarrow> pydict \<Rightarrow> py_error + update_op" where
  "prepare_vessel_update env amb mmsi vessel_data existing_record =
     (case existing_record ''name'' of
        None \<Rightarrow> Inl KeyError
      | Some nm \<Rightarrow>
          and_then (upd_float env (truthy (dget vessel_data ''latitude'')) (dget vessel_data ''latitude'')
                      ''ais_last_position_lat'' ''latitude'' ([], [''vessel_name'' \<mapsto> nm])) (\<lambda>a.
          and_then (upd_float env (truthy (dget vessel_data ''longitude'')) (dget vessel_data ''longitude'')
                      ''ais_last_position_lon'' ''longitude'' a) (\<lambda>a.
          and_then (upd_float env (dget vessel_data ''speed'' \<noteq> PNone) (dget vessel_data ''speed'')
                      ''ais_speed'' ''speed'' a) (\<lambda>a.
          and_then (upd_float env (dget vessel_data ''course'' \<noteq> PNone) (dget vessel_data ''course'')
                      ''ais_course'' ''course'' a) (\<lambda>a.
          and_then (upd_destination env vessel_data (upd_status vessel_data a)) (\<lambda>a.
          and_then (upd_name vessel_data existing_record a) (\<lambda>a.
            let b = upd_imo env vessel_data a in
            Inr (SqlUpdate
                   (fst b @ [(''ais_last_update'', ''update_time''), (''modified'', ''modified_time'')])
                   ((snd b)(''update_time'' \<mapsto> PDatetime (wall amb),
                            ''modified_time'' \<mapsto> PDatetime (wall amb)))))))))))"

subsection \<open>Inserts\<close>

definition digit_val :: "char \<Rightarrow> nat" where
  "digit_val c = of_char c - 48"

definition digits_val :: "string \<Rightarrow> nat" where
  "digits_val s = foldl (\<lambda>a c. 10 * a + digit_val c) 0 s"

text \<open>
  Lines 310-314: the search for a free synthetic IMO.
  \<^verbatim>\<open>frappe.db.exists('Vessels', {'imo_number': x})\<close> is membership of \<open>x\<close> in \<open>taken\<close>, the
  \<^verbatim>\<open>imo_number\<close> column of the registry when the insert is prepared.
\<close>

function free_imo :: "string list \<Rightarrow> string \<Rightarrow> string \<Rightarrow> nat \<Rightarrow> string" where
  "free_imo taken base_imo imo_number counter =
     (if imo_number \<in> set taken
      then free_imo taken base_imo (base_imo @ ''-'' @ str_nat counter) (counter + 1)
      else imo_number)"
  by pat_completeness auto
termination
proof (relation "measure (\<lambda>(taken, base_imo, imo_number, counter).
          card {k. counter \<le> k \<and> base_imo @ ''-'' @ str_nat k \<in> set taken}
          + (if imo_number \<in> set taken then 1 else 0))", goal_cases)
  case 1
  show ?case by simp
next
  case (2 taken base_imo imo_number counter)
  have dv: "digit_val (digit_char d) = d" if "d < 10" for d
  proof -
    from that have "d = 0 \<or> d = 1 \<or> d = 2 \<or> d = 3 \<or> d = 4 \<or> d = 5 \<or> d = 6 \<or> d = 7 \<or> d = 8 \<or> d = 9"
      by arith
    then show ?thesis
      by (elim disjE) (simp_all add: digit_val_def digit_char_def)
  qed
  have dvs: "digits_val (str_nat n) = n" for n
  proof (induction n rule: str_nat.induct)
    case (1 n)
    show ?case
    proof (cases "n < 10")
      case True
      then show ?thesis by (simp add: str_nat.simps[of n] digits_val_def dv)
    next
      case False
      with 1 have "digits_val (str_nat (n div 10)) = n div 10" by simp
      with False show ?thesis
        by (simp add: str_nat.simps[of n] digits_val_def dv)
    qed
  qed
  have "inj str_nat"
    by (rule inj_on_inverseI[where g = digits_val]) (simp add: dvs)
  then have "inj (\<lambda>k. base_imo @ ''-'' @ str_nat k)"
    by (auto simp: inj_on_def)
  then have fin: "finite {k. base_imo @ ''-'' @ str_nat k \<in> set taken}"
    using finite_vimageI[of "set taken" "\<lambda>k. base_imo @ ''-'' @ str_nat k"]
    by (simp add: vimage_def)
  let ?P = "\<lambda>k. base_imo @ ''-'' @ str_nat k \<in> set taken"
  let ?A = "{k. counter + 1 \<le> k \<and> ?P k}"
  have finA: "finite ?A" using fin by (rule rev_finite_subset) auto
  have split: "{k. counter \<le> k \<and> ?P k} = (if ?P counter then insert counter ?A else ?A)"
    by (auto simp: Suc_le_eq le_less)
  have "card {k. counter \<le> k \<and> ?P k} = card ?A + (if ?P counter then 1 else 0)"
    unfolding split using finA by simp
  with 2 show ?case by simp
qed

declare free_imo.simps [simp del]

definition ins_float ::
  "builtins \<Rightarrow> bool \<Rightarrow> pyval \<Rightarrow> string \<Rightarrow> pydict \<Rightarrow> py_error + pydict" where
  "ins_float env cond v col d =
     (if cond
      then (case py_float env v of Inl e \<Rightarrow> Inl e | Inr x \<Rightarrow> Inr (d(col \<mapsto> PFloat x)))
      else Inr d)"

definition ins_status :: "pydict \<Rightarrow> pydict \<Rightarrow> pydict" where
  "ins_status vessel_data d =
     (if truthy (dget vessel_data ''status'')
      then d(''ais_status'' \<mapsto> dget vessel_data ''status'')
      else d)"

text \<open>\<^verbatim>\<open>dest = str(d).strip()[:250]\<close>, stored only when not empty.\<close>

definition ins_destination :: "builtins \<Rightarrow> pydict \<Rightarrow> pydict \<Rightarrow> pydict" where
  "ins_destination env vessel_data d =
     (if truthy (dget vessel_data ''destination'')
      then (let dest = take 250 (strip (py_str env (dget vessel_data ''destination'')))
            in if dest \<noteq> [] then d(''ais_destination'' \<mapsto> PStr dest) else d)
      else d)"

text \<open>Lines 289-292: the name of a new vessel.\<close>

definition insert_name :: "string \<Rightarrow> pydict \<Rightarrow> py_error + string" where
  "insert_name mmsi vessel_data =
     (let vessel_name_raw = py_or (dget_or vessel_data ''vessel_name'' (PStr [])) (PStr []) in
      and_then
        (if truthy vessel_name_raw
         then (case vessel_name_raw of PStr s \<Rightarrow> Inr (strip s) | _ \<Rightarrow> Inl AttributeError)
         else Inr (''Unknown Vessel '' @ mmsi))
        (\<lambda>vessel_name.
           Inr (if vessel_name \<noteq> [] then take 140 vessel_name else ''Unknown Vessel '' @ mmsi)))"

text \<open>Lines 294-314: the IMO number of a new vessel.\<close>

definition insert_imo :: "builtins \<Rightarrow> string list \<Rightarrow> string \<Rightarrow> pydict \<Rightarrow> string" where
  "insert_imo env taken mmsi vessel_data =
     (let imo_number =
            (if genuine_imo (dget vessel_data ''imo_number'')
             then (let proposed_imo = py_str env (dget vessel_data ''imo_number'')
                   in if proposed_imo \<notin> set taken then proposed_imo else ''AIS-'' @ mmsi)
             else ''AIS-'' @ mmsi)
      in if startswith imo_number ''AIS-''
         then free_imo taken imo_number imo_number 1
         else imo_number)"

text \<open>\<^verbatim>\<open>prepare_vessel_insert(mmsi, vessel_data)\<close>; its only caller passes \<^verbatim>\<open>mmsi\<close> as a
  string, so \<^verbatim>\<open>str(mmsi)\<close> is \<open>mmsi\<close>.\<close>

definition prepare_vessel_insert ::
  "builtins \<Rightarrow> string list \<Rightarrow> ambient \<Rightarrow> string \<Rightarrow> pydict \<Rightarrow> py_error + insert_op" where
  "prepare_vessel_insert env taken amb mmsi vessel_data =
     and_then (insert_name mmsi vessel_data) (\<lambda>vessel_name.
       let imo_number = insert_imo env taken mmsi vessel_data;
           d0 = [''name'' \<mapsto> PStr (fresh_hash amb),
                 ''vessel_name'' \<mapsto> PStr vessel_name,
                 ''imo_number'' \<mapsto> PStr imo_number,
                 ''ais_mmsi'' \<mapsto> PStr mmsi,
                 ''grt'' \<mapsto> PStr ''0'',
                 ''dwt'' \<mapsto> PStr ''0'',
                 ''ais_last_update'' \<mapsto> PDatetime (wall amb),
                 ''creation'' \<mapsto> PDatetime (wall amb),
                 ''modified'' \<mapsto> PDatetime (wall amb),
                 ''owner'' \<mapsto> PStr ''Administrator'',
                 ''modified_by'' \<mapsto> PStr ''Administrator'']
       in
       and_then (ins_float env (truthy (dget vessel_data ''latitude'')) (dget vessel_data ''latitude'')
                   ''ais_last_position_lat'' d0) (\<lambda>d.
       and_then (ins_float env (truthy (dget vessel_data ''longitude'')) (dget vessel_data ''longitude'')
                   ''ais_last_position_lon'' d) (\<lambda>d.
       and_then (ins_float env (dget vessel_data ''speed'' \<noteq> PNone) (dget vessel_data ''speed'')
                   ''ais_speed'' d) (\<lambda>d.
       and_then (ins_float env (dget vessel_data ''course'' \<noteq> PNone) (dget vessel_data ''course'')
                   ''ais_course'' d) (\<lambda>d.
         Inr (ins_destination env vessel_data (ins_status vessel_data d)))))))"

subsection \<open>Identity merge\<close>

text \<open>Lines 366-370: the name written by the identity merge.\<close>

definition merge_name :: "builtins \<Rightarrow> pydict \<Rightarrow> pydict \<Rightarrow> pydict \<Rightarrow> pydict" where
  "merge_name env vessel_data existing_record d =
     (if truthy (dget vessel_data ''vessel_name'')
      then (let vessel_name = take 250 (strip (py_str env (dget vessel_data ''vessel_name'')))
            in if vessel_name \<noteq> [] \<and> PStr vessel_name \<noteq> dget existing_record ''vessel_name''
               then d(''vessel_name'' \<mapsto> PStr vessel_name)
               else d)
      else d)"

text \<open>\<^verbatim>\<open>prepare_mmsi_update(mmsi, vessel_data, existing_record)\<close>.\<close>

definition prepare_mmsi_update ::
  "builtins \<Rightarrow> ambient \<Rightarrow> string \<Rightarrow> pydict \<Rightarrow> pydict \<Rightarrow> py_error + update_op" where
  "prepare_mmsi_update env amb mmsi vessel_data existing_record =
     (let d0 = merge_name env vessel_data existing_record
                 [''ais_mmsi'' \<mapsto> PStr mmsi,
                  ''modified'' \<mapsto> PDatetime (wall amb),
                  ''modified_by'' \<mapsto> PStr ''Administrator'']
      in
      and_then (ins_float env (truthy (dget vessel_data ''latitude'')) (dget vessel_data ''latitude'')
                  ''ais_last_position_lat'' d0) (\<lambda>d.
      and_then (ins_float env (truthy (dget vessel_data ''longitude'')) (dget vessel_data ''longitude'')
                  ''ais_last_position_lon'' d) (\<lambda>d.
      and_then (ins_float env (dget vessel_data ''speed'' \<noteq> PNone) (dget vessel_data ''speed'')
                  ''ais_speed'' d) (\<lambda>d.
      and_then (ins_float env (dget vessel_data ''course'' \<noteq> PNone) (dget vessel_data ''course'')
                  ''ais_course'' d) (\<lambda>d.
        Inr (DataUpdate (dget existing_record ''name'')
               ((ins_destination env vessel_data (ins_status vessel_data d))
                  (''ais_last_update'' \<mapsto> PDatetime (wall amb)))))))))"

section \<open>IdentityResolver: the loop of \<^verbatim>\<open>update_vessel_ais_batch\<close>\<close>

text \<open>
  \<^verbatim>\<open>existing_vessels\<close> maps \<^verbatim>\<open>record.ais_mmsi\<close> and, for a row with a genuine IMO, the
  string \<^verbatim>\<open>IMO-<imo_number>\<close> to the row. The loop looks it up under string keys only, and
  a string key equals no key of another type, so HOL equality on keys is Python's there.
\<close>

type_synonym existing = "pyval \<rightharpoonup> pydict"

text \<open>Lines 138-142. \<^verbatim>\<open>.startswith\<close> on a truthy \<^verbatim>\<open>imo_number\<close> that is not a string
  raises \<^verbatim>\<open>AttributeError\<close>.\<close>

fun index_existing :: "pydict list \<Rightarrow> existing \<Rightarrow> py_error + existing" where
  "index_existing [] ev = Inr ev"
| "index_existing (r # rs) ev =
     (let ev1 = ev(dget r ''ais_mmsi'' \<mapsto> r); imo = dget r ''imo_number'' in
      if truthy imo
      then (case imo of
              PStr s \<Rightarrow> index_existing rs
                         (if \<not> startswith s ''AIS-'' then ev1(PStr (''IMO-'' @ s) \<mapsto> r) else ev1)
            | _ \<Rightarrow> Inl AttributeError)
      else index_existing rs ev1)"

text \<open>Lines 165-173: the gate, then the update of the record found or the insert of a
  new one. The state is the cache and the two lists built so far; the cache keeps what
  the gate wrote even when preparing the operation raises.\<close>

type_synonym batch_state = "vessel_cache \<times> update_op list \<times> insert_op list"

type_synonym batch_result = "vessel_cache \<times> (py_error + update_op list \<times> insert_op list)"

definition gate_and_prepare ::
  "builtins \<Rightarrow> string list \<Rightarrow> ambient \<Rightarrow> string \<Rightarrow> pydict \<Rightarrow> pydict option \<Rightarrow> batch_state \<Rightarrow> batch_result" where
  "gate_and_prepare env taken amb mmsi vessel_data existing_record st =
     (let cache = fst st; updates = fst (snd st); inserts = snd (snd st);
          g = should_update_vessel env (clock amb) mmsi vessel_data existing_record cache
      in if \<not> fst g then (snd g, Inr (updates, inserts))
         else (case existing_record of
                 Some r \<Rightarrow>
                   (snd g, and_then (prepare_vessel_update env amb mmsi vessel_data r)
                             (\<lambda>u. Inr (updates @ [u], inserts)))
               | None \<Rightarrow>
                   (snd g, and_then (prepare_vessel_insert env taken amb mmsi vessel_data)
                             (\<lambda>i. Inr (updates, inserts @ [i])))))"

text \<open>Lines 148-173: one round of the loop. \<^verbatim>\<open>mmsi = str(vessel_data.get('mmsi'))\<close>; a
  record found under the IMO key goes to \<^verbatim>\<open>prepare_mmsi_update\<close> and the round ends
  (\<^verbatim>\<open>continue\<close>) before the gate is called.\<close>

definition batch_item ::
  "builtins \<Rightarrow> string list \<Rightarrow> existing \<Rightarrow> ambient \<Rightarrow> pydict \<Rightarrow> batch_state \<Rightarrow> batch_result" where
  "batch_item env taken existing_vessels amb vessel_data st =
     (let mmsi = py_str env (dget vessel_data ''mmsi'');
          imo = dget vessel_data ''imo_number''
      in if mmsi = [] then (fst st, Inr (snd st))
         else (case existing_vessels (PStr mmsi) of
                 Some r \<Rightarrow> gate_and_prepare env taken amb mmsi vessel_data (Some r) st
               | None \<Rightarrow>
                   if genuine_imo imo
                   then (case existing_vessels (PStr (''IMO-'' @ py_str env imo)) of
                           Some r \<Rightarrow>
                             (fst st, and_then (prepare_mmsi_update env amb mmsi vessel_data r)
                                        (\<lambda>u. Inr (fst (snd st) @ [u], snd (snd st))))
                         | None \<Rightarrow> gate_and_prepare env taken amb mmsi vessel_data None st)
                   else gate_and_prepare env taken amb mmsi vessel_data None st))"

text \<open>The loop over \<^verbatim>\<open>vessels_data\<close>, each item with what its round reads from the
  surroundings. An exception leaves the loop.\<close>

fun batch_loop ::
  "builtins \<Rightarrow> string list \<Rightarrow> existing \<Rightarrow> (ambient \<times> pydict) list \<Rightarrow> batch_state \<Rightarrow> batch_result" where
  "batch_loop env taken existing_vessels [] st = (fst st, Inr (snd st))"
| "batch_loop env taken existing_vessels (x # xs) st =
     (case batch_item env taken existing_vessels (fst x) (snd x) st of
        (cache, Inl e) \<Rightarrow> (cache, Inl e)
      | (cache, Inr ops) \<Rightarrow> batch_loop env taken existing_vessels xs (cache, ops))"

section \<open>BatchExecutor\<close>

text \<open>
  The registry is an external store. A statement run on it, \<open>run db op\<close>, either gives
  the registry with the statement applied or raises an exception, kept as its message
  \<^verbatim>\<open>str(e)\<close>; a statement that raises changes nothing. \<^verbatim>\<open>frappe.db.commit()\<close> keeps the
  state reached, \<^verbatim>\<open>frappe.db.rollback()\<close> returns to the state the call started from.
  \<open>Returned\<close> holds the registry left behind and the \<^verbatim>\<open>ais_mmsi\<close> of the inserts printed as
  skipped; \<open>Raised\<close> holds the exception re-raised and the registry after the rollback.
\<close>

datatype 'db outcome = Returned 'db "pyval list" | Raised string 'db

definition is_duplicate_imo :: "string \<Rightarrow> bool" where
  "is_duplicate_imo e = (contains e ''Duplicate entry'' \<and> contains e ''imo_number'')"

text \<open>Lines 425-434: the loop over the inserts.\<close>

fun insert_loop ::
  "('db \<Rightarrow> insert_op \<Rightarrow> string + 'db) \<Rightarrow> 'db \<Rightarrow> insert_op list \<Rightarrow> pyval list \<Rightarrow> string + 'db \<times> pyval list" where
  "insert_loop run db [] skipped = Inr (db, skipped)"
| "insert_loop run db (i # rest) skipped =
     (case run db i of
        Inr db' \<Rightarrow> insert_loop run db' rest skipped
      | Inl e \<Rightarrow>
          if is_duplicate_imo e
          then insert_loop run db rest (skipped @ [dget i ''ais_mmsi''])
          else Inl e)"

text \<open>\<^verbatim>\<open>execute_batch_inserts(inserts)\<close>.\<close>

definition execute_batch_inserts ::
  "('db \<Rightarrow> insert_op \<Rightarrow> string + 'db) \<Rightarrow> 'db \<Rightarrow> insert_op list \<Rightarrow> 'db outcome" where
  "execute_batch_inserts run db inserts =
     (if inserts = [] then Returned db []
      else (case insert_loop run db inserts [] of
              Inr (db', skipped) \<Rightarrow> Returned db' skipped
            | Inl e \<Rightarrow> Raised e db))"

text \<open>Lines 403-410: the loop over the updates; the SQL form goes to \<^verbatim>\<open>frappe.db.sql\<close>,
  the data form to \<^verbatim>\<open>frappe.db.set_value\<close>.\<close>

fun update_loop ::
  "('db \<Rightarrow> update_op \<Rightarrow> string + 'db) \<Rightarrow> 'db \<Rightarrow> update_op list \<Rightarrow> string + 'db" where
  "update_loop run db [] = Inr db"
| "update_loop run db (u # rest) =
     (case run db u of Inr db' \<Rightarrow> update_loop run db' rest | Inl e \<Rightarrow> Inl e)"

text \<open>\<^verbatim>\<open>execute_batch_updates(updates)\<close>.\<close>

definition execute_batch_updates ::
  "('db \<Rightarrow> update_op \<Rightarrow> string + 'db) \<Rightarrow> 'db \<Rightarrow> update_op list \<Rightarrow> 'db outcome" where
  "execute_batch_updates run db updates =
     (if updates = [] then Returned db []
      else (case update_loop run db updates of
              Inr db' \<Rightarrow> Returned db' []
            | Inl e \<Rightarrow> Raised e db))"

text \<open>
  An idealised registry for following an update to the row it changes: a list of rows,
  on which \<^verbatim>\<open>frappe.db.set_value("Vessels", name, data)\<close> overwrites the fields of
  \<^verbatim>\<open>data\<close> in every row with that \<^verbatim>\<open>name\<close>, and the SQL update sets each column of its
  clauses to the value of its placeholder in the row named by \<^verbatim>\<open>%(vessel_name)s\<close>.
\<close>

definition set_value :: "pydict list \<Rightarrow> pyval \<Rightarrow> pydict \<Rightarrow> pydict list" where
  "set_value rows nm data = map (\<lambda>r. if dget r ''name'' = nm then r ++ data else r) rows"

definition sql_assignments :: "(string \<times> string) list \<Rightarrow> pydict \<Rightarrow> pydict" where
  "sql_assignments clauses vals = map_of (map (\<lambda>cp. (fst cp, dget vals (snd cp))) clauses)"

fun run_update :: "pydict list \<Rightarrow> update_op \<Rightarrow> string + pydict list" where
  "run_update rows (SqlUpdate clauses vals) =
     Inr (set_value rows (dget vals ''vessel_name'') (sql_assignments clauses vals))"
| "run_update rows (DataUpdate nm data) = Inr (set_value rows nm data)"

section \<open>MessageNormalizer and BatchAggregator: \<^verbatim>\<open>process_ais_message\<close>\<close>

text \<open>
  A frame of the feed: its \<^verbatim>\<open>MessageType\<close>, the dictionaries
  \<^verbatim>\<open>Message.PositionReport\<close> and \<^verbatim>\<open>Message.ShipStaticData\<close> (empty when the frame has none, as
  the \<^verbatim>\<open>.get(..., {})\<close> of the source reads them) and \<^verbatim>\<open>MetaData\<close>.
\<close>

record frame =
  message_type :: pyval
  position_report :: pydict
  ship_static_data :: pydict
  meta_data :: pydict

text \<open>A number used as a dictionary key or compared with an integer: \<^verbatim>\<open>True == 1\<close> and
  \<^verbatim>\<open>1.0 == 1\<close>.\<close>

fun num_key :: "pyval \<Rightarrow> real option" where
  "num_key (PBool b) = Some (if b then 1 else 0)"
| "num_key (PInt i) = Some (real_of_int i)"
| "num_key (PFloat r) = Some r"
| "num_key v = None"

text \<open>\<^verbatim>\<open>get_navigation_status(status_code)\<close>: \<^verbatim>\<open>status_map.get(status_code, "Unknown")\<close>.\<close>

definition get_navigation_status :: "pyval \<Rightarrow> string" where
  "get_navigation_status status_code =
     (case num_key status_code of
        None \<Rightarrow> ''Unknown''
      | Some x \<Rightarrow>
          if x = 0 then ''Under way using engine''
          else if x = 1 then ''At anchor''
          else if x = 2 then ''Not under command''
          else if x = 3 then ''Restricted manoeuvrability''
          else if x = 4 then ''Constrained by her draught''
          else if x = 5 then ''Moored''
          else if x = 6 then ''Aground''
          else if x = 7 then ''Engaged in Fishing''
          else if x = 8 then ''Under way sailing''
          else if x = 15 then ''Default''
          else ''Unknown'')"

text \<open>\<^verbatim>\<open>get_vessel_type(type_code)\<close>; comparing \<^verbatim>\<open>None\<close> or a string with an integer
  raises \<^verbatim>\<open>TypeError\<close>.\<close>

definition get_vessel_type :: "pyval \<Rightarrow> py_error + string" where
  "get_vessel_type type_code =
     (case num_key type_code of
        None \<Rightarrow> Inl TypeError
      | Some x \<Rightarrow>
          Inr (if 30 \<le> x \<and> x \<le> 32 then ''Fishing''
               else if 60 \<le> x \<and> x \<le> 69 then ''Passenger''
               else if 70 \<le> x \<and> x \<le> 79 then ''Cargo''
               else if 80 \<le> x \<and> x \<le> 89 then ''Tanker''
               else ''Other''))"

text \<open>Lines 449-485: the \<^verbatim>\<open>vessel_data\<close> dictionary built from a frame. Every key of the
  literal is present in the result, with value \<^verbatim>\<open>None\<close> where the frame has nothing.\<close>

definition build_vessel_data :: "frame \<Rightarrow> py_error + pydict" where
  "build_vessel_data message_data =
     (let position = position_report message_data;
          static = ship_static_data message_data;
          metadata = meta_data message_data
      in if message_type message_data = PStr ''PositionReport''
         then Inr [''mmsi'' \<mapsto> py_or (dget position ''UserID'') (dget metadata ''MMSI''),
                   ''latitude'' \<mapsto> py_or (dget position ''Latitude'') (dget metadata ''latitude''),
                   ''longitude'' \<mapsto> py_or (dget position ''Longitude'') (dget metadata ''longitude''),
                   ''speed'' \<mapsto> dget position ''Sog'',
                   ''course'' \<mapsto> dget position ''Cog'',
                   ''status'' \<mapsto> PStr (get_navigation_status
                                          (dget_or position ''NavigationalStatus'' (PInt 15))),
                   ''vessel_name'' \<mapsto> dget metadata ''ShipName'']
         else if message_type message_data = PStr ''ShipStaticData''
         then and_then (get_vessel_type (dget_or static ''Type'' (PInt 0))) (\<lambda>vessel_type.
                let d = [''mmsi'' \<mapsto> py_or (dget static ''UserID'') (dget metadata ''MMSI''),
                         ''vessel_name'' \<mapsto> py_or (dget static ''Name'') (dget metadata ''ShipName''),
                         ''destination'' \<mapsto> dget static ''Destination'',
                         ''call_sign'' \<mapsto> dget static ''CallSign'',
                         ''imo_number'' \<mapsto> dget static ''ImoNumber'',
                         ''vessel_type'' \<mapsto> PStr vessel_type]
                in Inr (if truthy (dget metadata ''latitude'') \<and> truthy (dget metadata ''longitude'')
                        then d(''latitude'' \<mapsto> dget metadata ''latitude'',
                               ''longitude'' \<mapsto> dget metadata ''longitude'')
                        else d))
         else Inr Map.empty)"

text \<open>
  The aggregator: \<^verbatim>\<open>update_queue\<close>, a \<^verbatim>\<open>defaultdict(dict)\<close> from \<^verbatim>\<open>str(mmsi)\<close> to the pending
  dictionary, in insertion order, and \<^verbatim>\<open>last_batch_time\<close>.
\<close>

record aggregator =
  update_queue :: "(string \<times> pydict) list"
  last_batch_time :: real

datatype status = Success | Error py_error

text \<open>Line 489: \<^verbatim>\<open>update_queue[mmsi].update(vessel_data)\<close>.\<close>

definition enqueue :: "string \<Rightarrow> pydict \<Rightarrow> (string \<times> pydict) list \<Rightarrow> (string \<times> pydict) list" where
  "enqueue mmsi vessel_data queue =
     AList.update mmsi
       ((case map_of queue mmsi of None \<Rightarrow> Map.empty | Some pending \<Rightarrow> pending) ++ vessel_data)
       queue"

text \<open>\<^verbatim>\<open>process_batch_queue()\<close>: the queue it leaves and the \<^verbatim>\<open>vessels_data\<close> handed to
  \<^verbatim>\<open>frappe.enqueue\<close>, if any.\<close>

definition process_batch_queue ::
  "(string \<times> pydict) list \<Rightarrow> (string \<times> pydict) list \<times> pydict list option" where
  "process_batch_queue queue = (if queue = [] then (queue, None) else ([], Some (map snd queue)))"

text \<open>\<^verbatim>\<open>process_ais_message(message_data)\<close>, with the reading of \<^verbatim>\<open>time.time()\<close> passed in:
  the status returned, the aggregator left, and the batch enqueued, if any.\<close>

definition process_ais_message ::
  "builtins \<Rightarrow> real \<Rightarrow> frame \<Rightarrow> aggregator \<Rightarrow> status \<times> aggregator \<times> pydict list option" where
  "process_ais_message env current_time message_data st =
     (case build_vessel_data message_data of
        Inl e \<Rightarrow> (Error e, st, None)
      | Inr vessel_data \<Rightarrow>
          if truthy (dget vessel_data ''mmsi'')
          then (let mmsi = py_str env (dget vessel_data ''mmsi'');
                    queue = enqueue mmsi vessel_data (update_queue st)
                in if current_time - last_batch_time st > 10 \<or> length queue \<ge> 50
                   then (let flushed = process_batch_queue queue
                         in (Success,
                             \<lparr>update_queue = fst flushed, last_batch_time = current_time\<rparr>,
                             snd flushed))
                   else (Success, st\<lparr>update_queue := queue\<rparr>, None))
          else (Success, st, None))"

section \<open>\<^verbatim>\<open>update_vessel_ais_batch\<close>\<close>

text \<open>
  The registry store as the batch uses it: the rows of \<^verbatim>\<open>tabVessels\<close> it holds, and the
  two kinds of statement run on it. Comparison in the store is idealised as equality of
  values.
\<close>

record 'db store =
  rows_of :: "'db \<Rightarrow> pydict list"
  exec_update :: "'db \<Rightarrow> update_op \<Rightarrow> string + 'db"
  exec_insert :: "'db \<Rightarrow> insert_op \<Rightarrow> string + 'db"

text \<open>Lines 122-128: the identities of the batch.\<close>

definition mmsi_list :: "builtins \<Rightarrow> pydict list \<Rightarrow> string list" where
  "mmsi_list env vessels_data =
     map (\<lambda>v. py_str env (dget v ''mmsi'')) (filter (\<lambda>v. truthy (dget v ''mmsi'')) vessels_data)"

definition imo_numbers :: "builtins \<Rightarrow> pydict list \<Rightarrow> string list" where
  "imo_numbers env vessels_data =
     map (\<lambda>v. py_str env (dget v ''imo_number''))
       (filter (\<lambda>v. genuine_imo (dget v ''imo_number'')) vessels_data)"

text \<open>Lines 132-136: the rows whose \<^verbatim>\<open>ais_mmsi\<close> or \<^verbatim>\<open>imo_number\<close> is listed, each as the
  dictionary of the five selected columns (\<^verbatim>\<open>None\<close> for a column that is NULL).\<close>

definition selected_columns :: "pydict \<Rightarrow> pydict" where
  "selected_columns r =
     [''name'' \<mapsto> dget r ''name'', ''ais_mmsi'' \<mapsto> dget r ''ais_mmsi'',
      ''ais_last_update'' \<mapsto> dget r ''ais_last_update'', ''vessel_name'' \<mapsto> dget r ''vessel_name'',
      ''imo_number'' \<mapsto> dget r ''imo_number'']"

definition select_existing :: "pydict list \<Rightarrow> string list \<Rightarrow> string list \<Rightarrow> pydict list" where
  "select_existing rows mmsis imos =
     map selected_columns
       (filter (\<lambda>r. dget r ''ais_mmsi'' \<in> PStr ` set mmsis
                   \<or> dget r ''imo_number'' \<in> PStr ` set (imos @ [''dummy''])) rows)"

text \<open>\<^verbatim>\<open>frappe.db.exists('Vessels', {'imo_number': x})\<close> holds for the strings of the
  \<^verbatim>\<open>imo_number\<close> column.\<close>

definition imo_column :: "pydict list \<Rightarrow> string list" where
  "imo_column rows = concat (map (\<lambda>r. case dget r ''imo_number'' of PStr s \<Rightarrow> [s] | _ \<Rightarrow> []) rows)"

datatype batch_status = BatchSuccess nat | BatchError

text \<open>\<^verbatim>\<open>update_vessel_ais_batch(vessels_data)\<close>: the status returned, the registry and the
  cache left behind. Every exception ends in \<^verbatim>\<open>{"status": "error"}\<close>; updates committed
  before the inserts fail stay committed.\<close>

definition update_vessel_ais_batch ::
  "builtins \<Rightarrow> 'db store \<Rightarrow> (ambient \<times> pydict) list \<Rightarrow> 'db \<Rightarrow> vessel_cache
     \<Rightarrow> batch_status \<times> 'db \<times> vessel_cache" where
  "update_vessel_ais_batch env st items db cache =
     (let vessels_data = map snd items in
      if vessels_data = [] then (BatchSuccess 0, db, cache)
      else
        (case (if mmsi_list env vessels_data \<noteq> []
               then index_existing
                      (select_existing (rows_of st db) (mmsi_list env vessels_data)
                         (imo_numbers env vessels_data)) Map.empty
               else Inr Map.empty) of
           Inl e \<Rightarrow> (BatchError, db, cache)
         | Inr existing_vessels \<Rightarrow>
             (case batch_loop env (imo_column (rows_of st db)) existing_vessels items (cache, [], []) of
                (cache', Inl e) \<Rightarrow> (BatchError, db, cache')
              | (cache', Inr (updates, inserts)) \<Rightarrow>
                  (case execute_batch_updates (exec_update st) db updates of
                     Raised e db1 \<Rightarrow> (BatchError, db1, cache')
                   | Returned db1 skipped1 \<Rightarrow>
                       (case execute_batch_inserts (exec_insert st) db1 inserts of
                          Raised e db2 \<Rightarrow> (BatchError, db2, cache')
                        | Returned db2 skipped \<Rightarrow>
                            (BatchSuccess (length updates + length inserts), db2, cache'))))))"

text \<open>The idealised registry as a store: a list of rows, an insert appends its row.\<close>

definition run_insert :: "pydict list \<Rightarrow> insert_op \<Rightarrow> string + pydict list" where
  "run_insert rows i = Inr (rows @ [i])"

definition list_store :: "(pydict list) store" where
  "list_store = \<lparr>rows_of = id, exec_update = run_update, exec_insert = run_insert\<rparr>"

text \<open>A cache of \<open>n\<close> keys written at the times \<open>0, 1, ..., n - 1\<close>.\<close>

definition numbered_entry :: "nat \<Rightarrow> string \<times> real" where
  "numbered_entry i = (''vessel_update_'' @ str_nat i, real i)"

definition numbered_cache :: "nat \<Rightarrow> vessel_cache" where
  "numbered_cache n = map numbered_entry [0..<n]"

section \<open>Observations and sample inputs for the statements\<close>

text \<open>The value the pending record of \<open>mmsi\<close> holds for field \<open>k\<close>: \<open>None\<close> when there
  is no pending record or the record has no such key, \<open>Some PNone\<close> for a key present
  with value \<^verbatim>\<open>None\<close>.\<close>

definition pending_field :: "(string \<times> pydict) list \<Rightarrow> string \<Rightarrow> string \<Rightarrow> pyval option" where
  "pending_field queue mmsi k = (case map_of queue mmsi of None \<Rightarrow> None | Some pending \<Rightarrow> pending k)"

text \<open>A \<^verbatim>\<open>PositionReport\<close> frame with empty \<^verbatim>\<open>MetaData\<close>.\<close>

definition position_frame :: "pydict \<Rightarrow> frame" where
  "position_frame report =
     \<lparr>message_type = PStr ''PositionReport'', position_report = report,
      ship_static_data = Map.empty, meta_data = Map.empty\<rparr>"

text \<open>The four numeric fields of an update convert with \<^verbatim>\<open>float\<close> wherever the
  \<^verbatim>\<open>prepare_*\<close> functions convert them: the input on which they raise nothing.\<close>

definition converts :: "builtins \<Rightarrow> bool \<Rightarrow> pyval \<Rightarrow> bool" where
  "converts env cond v =
     (if cond then (case py_float env v of Inl e \<Rightarrow> False | Inr x \<Rightarrow> True) else True)"

definition floats_convert :: "builtins \<Rightarrow> pydict \<Rightarrow> bool" where
  "floats_convert env vessel_data =
     (converts env (truthy (dget vessel_data ''latitude'')) (dget vessel_data ''latitude'')
      \<and> converts env (truthy (dget vessel_data ''longitude'')) (dget vessel_data ''longitude'')
      \<and> converts env (dget vessel_data ''speed'' \<noteq> PNone) (dget vessel_data ''speed'')
      \<and> converts env (dget vessel_data ''course'' \<noteq> PNone) (dget vessel_data ''course''))"

text \<open>
  What the executor's contract promises for a group of inserts, in the words of the
  specification: every insert is attempted in turn on the registry the earlier ones
  left, one that raises leaves the registry as it was (\<open>attempt_all\<close>), and those that
  raised are the ones reported as skipped (\<open>skipped_of\<close>).
\<close>

fun attempt_all :: "('db \<Rightarrow> insert_op \<Rightarrow> string + 'db) \<Rightarrow> 'db \<Rightarrow> insert_op list \<Rightarrow> 'db" where
  "attempt_all run db [] = db"
| "attempt_all run db (i # rest) =
     (case run db i of Inr db' \<Rightarrow> attempt_all run db' rest | Inl e \<Rightarrow> attempt_all run db rest)"

fun skipped_of :: "('db \<Rightarrow> insert_op \<Rightarrow> string + 'db) \<Rightarrow> 'db \<Rightarrow> insert_op list \<Rightarrow> pyval list" where
  "skipped_of run db [] = []"
| "skipped_of run db (i # rest) =
     (case run db i of
        Inr db' \<Rightarrow> skipped_of run db' rest
      | Inl e \<Rightarrow> dget i ''ais_mmsi'' # skipped_of run db rest)"

text \<open>On the registry each insert meets, the inserts raise nothing but duplicate-IMO
  conflicts.\<close>

fun conflicts_only :: "('db \<Rightarrow> insert_op \<Rightarrow> string + 'db) \<Rightarrow> 'db \<Rightarrow> insert_op list \<Rightarrow> bool" where
  "conflicts_only run db [] = True"
| "conflicts_only run db (i # rest) =
     (case run db i of
        Inr db' \<Rightarrow> conflicts_only run db' rest
      | Inl e \<Rightarrow> is_duplicate_imo e \<and> conflicts_only run db rest)"

text \<open>A registry of rows that refuses a row without \<^verbatim>\<open>name\<close> and a second row with an
  \<^verbatim>\<open>imo_number\<close> it already holds, with messages shaped like the database's.\<close>

definition unique_insert :: "pydict list \<Rightarrow> insert_op \<Rightarrow> string + pydict list" where
  "unique_insert rows i =
     (if dget i ''name'' = PNone then Inl ''Column name cannot be null''
      else if dget i ''imo_number'' \<in> set (map (\<lambda>r. dget r ''imo_number'') rows)
      then Inl ''Duplicate entry for key imo_number''
      else Inr (rows @ [i]))"

text \<open>Readings of the surroundings for the sample inputs.\<close>

definition sample_ambient :: ambient where
  "sample_ambient = \<lparr>clock = 1000, wall = 1000, fresh_hash = ''a1b2c3d4e5''\<rparr>"

text \<open>The scenarios of the specification as inputs: a registry row with IMO number
  9123456 and mmsi 111, updates that match it by mmsi, by IMO number only, and not at
  all, inserts for the executor, and frames for the aggregator.\<close>

definition merge_record :: pydict where
  "merge_record = [''name'' \<mapsto> PStr ''V1'', ''ais_mmsi'' \<mapsto> PStr ''111'',
                   ''ais_last_update'' \<mapsto> PNone, ''vessel_name'' \<mapsto> PStr ''OLD NAME'',
                   ''imo_number'' \<mapsto> PStr ''9123456'']"

definition merge_update :: pydict where
  "merge_update = [''mmsi'' \<mapsto> PInt 222, ''imo_number'' \<mapsto> PInt 9123456,
                   ''latitude'' \<mapsto> PFloat 21.5, ''longitude'' \<mapsto> PFloat 39.2]"

definition merge_existing :: existing where
  "merge_existing = [PStr ''111'' \<mapsto> merge_record, PStr ''IMO-9123456'' \<mapsto> merge_record]"

definition sample_insert :: "string \<Rightarrow> string \<Rightarrow> string \<Rightarrow> insert_op" where
  "sample_insert h imo m = [''name'' \<mapsto> PStr h, ''imo_number'' \<mapsto> PStr imo, ''ais_mmsi'' \<mapsto> PStr m]"

definition nameless_insert :: "string \<Rightarrow> string \<Rightarrow> insert_op" where
  "nameless_insert imo m = [''imo_number'' \<mapsto> PStr imo, ''ais_mmsi'' \<mapsto> PStr m]"

definition collide_update :: pydict where
  "collide_update = [''mmsi'' \<mapsto> PInt 999, ''imo_number'' \<mapsto> PInt 9123456]"

definition pending_sample :: aggregator where
  "pending_sample =
     \<lparr>update_queue = [(''403456789'', [''speed'' \<mapsto> PFloat 12.5, ''destination'' \<mapsto> PStr ''JEDDAH''])],
      last_batch_time = 0\<rparr>"

definition report_sample :: frame where
  "report_sample = position_frame [''UserID'' \<mapsto> PInt 403456789, ''Latitude'' \<mapsto> PFloat 21.5,
                                   ''Longitude'' \<mapsto> PFloat 39.2]"

definition long_name :: string where
  "long_name = replicate 200 CHR ''A''"

definition equator_frame :: frame where
  "equator_frame =
     \<lparr>message_type = PStr ''PositionReport'',
      position_report = [''UserID'' \<mapsto> PInt 403456789, ''Latitude'' \<mapsto> PFloat 0,
                         ''Longitude'' \<mapsto> PFloat 39.2],
      ship_static_data = Map.empty,
      meta_data = [''MMSI'' \<mapsto> PInt 403456789, ''latitude'' \<mapsto> PFloat 21.5,
                   ''longitude'' \<mapsto> PFloat 39.2]\<rparr>"

definition equator_update :: pydict where
  "equator_update = [''mmsi'' \<mapsto> PInt 403456789, ''latitude'' \<mapsto> PFloat 0,
                     ''longitude'' \<mapsto> PFloat 39.2]"

definition known_update :: pydict where
  "known_update = [''mmsi'' \<mapsto> PStr ''111'', ''latitude'' \<mapsto> PFloat 21.5,
                   ''longitude'' \<mapsto> PFloat 39.2]"


definition underway_frame :: frame where
  "underway_frame = position_frame
     [''UserID'' \<mapsto> PInt 403456789, ''Latitude'' \<mapsto> PFloat 21.5, ''Longitude'' \<mapsto> PFloat 39.2,
      ''Sog'' \<mapsto> PFloat 12.5, ''Cog'' \<mapsto> PInt 45, ''NavigationalStatus'' \<mapsto> PInt 0]"



text \<open>A \<^verbatim>\<open>ShipStaticData\<close> frame with empty \<^verbatim>\<open>MetaData\<close>, and the aggregator at the start
  of a flush window.\<close>

definition static_sample :: frame where
  "static_sample =
     \<lparr>message_type = PStr ''ShipStaticData'', position_report = Map.empty,
      ship_static_data = [''UserID'' \<mapsto> PInt 403456789, ''Name'' \<mapsto> PStr ''SAUDI TRADER'',
                          ''Destination'' \<mapsto> PStr ''JEDDAH'', ''ImoNumber'' \<mapsto> PInt 9123456,
                          ''Type'' \<mapsto> PInt 70],
      meta_data = Map.empty\<rparr>"

definition empty_aggregator :: aggregator where
  "empty_aggregator = \<lparr>update_queue = [], last_batch_time = 0\<rparr>"

text \<open>A registry row and an update whose mmsi is a string with the prefix of the IMO
  keys of the index.\<close>

definition prefixed_record :: pydict where
  "prefixed_record = [''name'' \<mapsto> PStr ''V2'', ''ais_mmsi'' \<mapsto> PStr ''IMO-9123456'',
                      ''ais_last_update'' \<mapsto> PNone, ''vessel_name'' \<mapsto> PStr ''OTHER'',
                      ''imo_number'' \<mapsto> PStr ''7654321'']"

definition prefixed_update :: pydict where
  "prefixed_update = [''mmsi'' \<mapsto> PStr ''IMO-9123456'', ''latitude'' \<mapsto> PFloat 21.5,
                      ''longitude'' \<mapsto> PFloat 39.2]"

section \<open>Facts about the built-ins\<close>

lemma str_nat_small: "n < 10 \<Longrightarrow> str_nat n = [digit_char n]"
  by (simp add: str_nat.simps[of n])

lemma str_nat_large: "10 \<le> n \<Longrightarrow> str_nat n = str_nat (n div 10) @ [digit_char (n mod 10)]"
  by (simp add: str_nat.simps[of n])

lemma digit_val_char: "d < 10 \<Longrightarrow> digit_val (digit_char d) = d"
proof -
  assume "d < 10"
  then have "d = 0 \<or> d = 1 \<or> d = 2 \<or> d = 3 \<or> d = 4 \<or> d = 5 \<or> d = 6 \<or> d = 7 \<or> d = 8 \<or> d = 9"
    by arith
  then show ?thesis
    by (elim disjE) (simp_all add: digit_val_def digit_char_def)
qed

lemma digits_val_str_nat: "digits_val (str_nat n) = n"
proof (induction n rule: str_nat.induct)
  case (1 n)
  show ?case
  proof (cases "n < 10")
    case True
    then show ?thesis by (simp add: str_nat_small digits_val_def digit_val_char)
  next
    case False
    with 1 have "digits_val (str_nat (n div 10)) = n div 10" by simp
    with False show ?thesis
      by (simp add: str_nat_large digits_val_def digit_val_char)
  qed
qed

lemma inj_str_nat: "inj str_nat"
  by (rule inj_on_inverseI[where g = digits_val]) (simp add: digits_val_str_nat)

lemma str_nat_eq_iff: "str_nat a = str_nat b \<longleftrightarrow> a = b"
  using inj_str_nat by (auto dest: injD)

section \<open>Facts about the cache\<close>

lemma update_fresh: "k \<notin> fst ` set al \<Longrightarrow> AList.update k v al = al @ [(k, v)]"
  by (induction al) auto

lemma fold_update_distinct:
  "distinct (map fst (acc @ ps)) \<Longrightarrow>
   fold (\<lambda>kv d. AList.update (fst kv) (snd kv) d) ps acc = acc @ ps"
proof (induction ps arbitrary: acc)
  case Nil
  then show ?case by simp
next
  case (Cons p ps)
  from Cons.prems have fresh: "fst p \<notin> fst ` set acc" by auto
  from Cons.prems have "distinct (map fst ((acc @ [p]) @ ps))" by simp
  then have "fold (\<lambda>kv d. AList.update (fst kv) (snd kv) d) ps (acc @ [p]) = (acc @ [p]) @ ps"
    by (rule Cons.IH)
  then show ?case using fresh by (simp add: update_fresh)
qed

lemma dict_of_distinct: "distinct (map fst ps) \<Longrightarrow> dict_of ps = ps"
  using fold_update_distinct[of "[]" ps] by (simp add: dict_of_def)

lemma set_sorted_cache: "set (sorted_cache cache) = set cache"
  by (simp add: sorted_cache_def)

lemma length_sorted_cache: "length (sorted_cache cache) = length cache"
  by (simp add: sorted_cache_def)

lemma distinct_sorted_cache:
  "distinct (map fst cache) \<Longrightarrow> distinct (map fst (sorted_cache cache))"
  by (simp add: sorted_cache_def distinct_map)

lemma distinct_take_keys: "distinct (map fst ps) \<Longrightarrow> distinct (map fst (take n ps))"
  by (simp add: take_map[symmetric] distinct_take)

lemma evict_full:
  assumes "length cache > MAX_CACHE_SIZE" and "distinct (map fst cache)"
  shows "evict cache = take 5000 (sorted_cache cache)"
  using assms by (simp add: evict_def dict_of_distinct distinct_take_keys distinct_sorted_cache)

text \<open>Whatever the eviction keeps was written no earlier than anything it drops.\<close>

lemma kept_newest:
  assumes "e \<in> set (take n (sorted_cache cache))"
    and "d \<in> set cache" and "d \<notin> set (take n (sorted_cache cache))"
  shows "snd d \<le> snd e"
proof -
  let ?s = "sorted_cache cache"
  have "sorted (map (\<lambda>kv. - snd kv) ?s)"
    by (simp add: sorted_cache_def)
  then have "sorted (map (\<lambda>kv. - snd kv) (take n ?s) @ map (\<lambda>kv. - snd kv) (drop n ?s))"
    by (simp add: map_append[symmetric] del: map_append)
  then have ord: "\<forall>x\<in>set (take n ?s). \<forall>y\<in>set (drop n ?s). - snd x \<le> - snd y"
    by (auto simp: sorted_append)
  have "set ?s = set (take n ?s) \<union> set (drop n ?s)"
    by (metis append_take_drop_id set_append)
  with assms(2,3) have "d \<in> set (drop n ?s)"
    by (simp add: set_sorted_cache)
  with ord assms(1) show ?thesis by fastforce
qed

lemma length_update_le: "length (AList.update k v al) \<le> Suc (length al)"
  by (induction al) auto

lemma distinct_evict: "distinct (map fst cache) \<Longrightarrow> distinct (map fst (evict cache))"
  by (simp add: evict_def dict_of_distinct distinct_take_keys distinct_sorted_cache)

lemma should_update_cache_cases:
  "snd (should_update_vessel env now mmsi nd (Some er) cache) = evict cache \<or>
   snd (should_update_vessel env now mmsi nd (Some er) cache)
     = AList.update (''vessel_update_'' @ mmsi) now (evict cache)"
  by (simp add: should_update_vessel_def Let_def)

text \<open>The keys of the cache stay distinct, as those of a \<^verbatim>\<open>dict\<close> are.\<close>

lemma distinct_should_update:
  "distinct (map fst cache) \<Longrightarrow>
   distinct (map fst (snd (should_update_vessel env now mmsi nd er cache)))"
  by (cases er) (auto simp: should_update_vessel_def Let_def distinct_evict distinct_update)

lemma length_numbered_cache: "length (numbered_cache n) = n"
  by (simp add: numbered_cache_def)

lemma distinct_numbered_cache: "distinct (map fst (numbered_cache n))"
proof -
  have "inj_on (\<lambda>i. fst (numbered_entry i)) (set [0..<n])"
    by (rule inj_onI) (simp add: numbered_entry_def str_nat_eq_iff)
  then show ?thesis
    by (simp add: numbered_cache_def distinct_map comp_def)
qed

section \<open>ChangeGate\<close>

text \<open>
  C2, as the code has it. The claim lets a position change of more than 0.001 degrees
  override the 30-second rate limit. In \<^verbatim>\<open>should_update_vessel\<close> the rate limit is tested
  first and returns \<^verbatim>\<open>False\<close> before the position is looked at: a vessel written 10 seconds
  ago that has moved 1.5 degrees of latitude is rejected and no timestamp is recorded.
\<close>

theorem gate_rate_limit_counterexample:
  "position_changed plain_builtins
     [''latitude'' \<mapsto> PFloat 21.5, ''longitude'' \<mapsto> PFloat 39.2]
     [''name'' \<mapsto> PStr ''V1'', ''ais_last_position_lat'' \<mapsto> PFloat 20,
      ''ais_last_position_lon'' \<mapsto> PFloat 39.2]
   \<and> should_update_vessel plain_builtins 110 ''403456789''
     [''latitude'' \<mapsto> PFloat 21.5, ''longitude'' \<mapsto> PFloat 39.2]
     (Some [''name'' \<mapsto> PStr ''V1'', ''ais_last_position_lat'' \<mapsto> PFloat 20,
            ''ais_last_position_lon'' \<mapsto> PFloat 39.2])
     [(''vessel_update_403456789'', 100)]
   = (False, [(''vessel_update_403456789'', 100)])"
  by (simp add: should_update_vessel_def position_changed_def evict_def MAX_CACHE_SIZE_def
      rate_limited_def dget_def dget_or_def)

text \<open>
  C2, amended. For an update and an existing record that both carry a position (the
  update's coordinates are truthy, all four coordinates convert with \<^verbatim>\<open>float\<close>) whose
  latitudes or longitudes differ by more than 0.001: if the timestamp stored for the
  mmsi after the eviction is younger than 30 seconds, the call returns \<^verbatim>\<open>False\<close> and
  writes nothing; otherwise it returns \<^verbatim>\<open>True\<close> and records the time of the call.
  Rule 2 takes precedence over rule 3.
\<close>

theorem position_change_accepted_unless_rate_limited:
  assumes "truthy (dget new_data ''latitude'')" and "truthy (dget new_data ''longitude'')"
    and "py_float env (dget new_data ''latitude'') = Inr lat"
    and "py_float env (dget_or er ''ais_last_position_lat'' (PInt 0)) = Inr lat_old"
    and "py_float env (dget new_data ''longitude'') = Inr lon"
    and "py_float env (dget_or er ''ais_last_position_lon'' (PInt 0)) = Inr lon_old"
    and "\<bar>lat - lat_old\<bar> > 0.001 \<or> \<bar>lon - lon_old\<bar> > 0.001"
  shows "(rate_limited (map_of (evict cache) (''vessel_update_'' @ mmsi)) now \<longrightarrow>
            should_update_vessel env now mmsi new_data (Some er) cache = (False, evict cache))
       \<and> (\<not> rate_limited (map_of (evict cache) (''vessel_update_'' @ mmsi)) now \<longrightarrow>
            fst (should_update_vessel env now mmsi new_data (Some er) cache)
            \<and> map_of (snd (should_update_vessel env now mmsi new_data (Some er) cache))
                (''vessel_update_'' @ mmsi) = Some now)"
proof -
  have "position_changed env new_data er"
    using assms by (simp add: position_changed_def)
  then show ?thesis
    by (simp add: should_update_vessel_def Let_def update_conv')
qed

theorem position_change_accepted_witness:
  "fst (should_update_vessel plain_builtins 200 ''403456789''
          [''latitude'' \<mapsto> PFloat 21.5, ''longitude'' \<mapsto> PFloat 39.2]
          (Some [''name'' \<mapsto> PStr ''V1'', ''ais_last_position_lat'' \<mapsto> PFloat 20,
                 ''ais_last_position_lon'' \<mapsto> PFloat 39.2])
          [(''vessel_update_403456789'', 100)])
   \<and> map_of (snd (should_update_vessel plain_builtins 200 ''403456789''
          [''latitude'' \<mapsto> PFloat 21.5, ''longitude'' \<mapsto> PFloat 39.2]
          (Some [''name'' \<mapsto> PStr ''V1'', ''ais_last_position_lat'' \<mapsto> PFloat 20,
                 ''ais_last_position_lon'' \<mapsto> PFloat 39.2])
          [(''vessel_update_403456789'', 100)]))
       ''vessel_update_403456789'' = Some 200"
  using position_change_accepted_unless_rate_limited
    [where env = plain_builtins and now = 200 and mmsi = "''403456789''"
       and new_data = "[''latitude'' \<mapsto> PFloat 21.5, ''longitude'' \<mapsto> PFloat 39.2]"
       and er = "[''name'' \<mapsto> PStr ''V1'', ''ais_last_position_lat'' \<mapsto> PFloat 20,
                  ''ais_last_position_lon'' \<mapsto> PFloat 39.2]"
       and cache = "[(''vessel_update_403456789'', 100)]"
       and lat = "21.5" and lat_old = 20 and lon = "39.2" and lon_old = "39.2"]
  by (simp add: dget_def dget_or_def evict_def MAX_CACHE_SIZE_def rate_limited_def)

text \<open>
  C5, as the code has it. The claim has every accepting call record its time, rule 1
  included. \<^verbatim>\<open>should_update_vessel\<close> returns \<^verbatim>\<open>True\<close> for a vessel with no existing record
  before it touches the cache: nothing is recorded, and the update that arrives one
  second later, at the same position and now with its record, is accepted as well.
\<close>

theorem gate_new_vessel_counterexample:
  "fst (should_update_vessel plain_builtins 100 ''403456789''
          [''latitude'' \<mapsto> PFloat 21.5, ''longitude'' \<mapsto> PFloat 39.2] None [])
   \<and> map_of (snd (should_update_vessel plain_builtins 100 ''403456789''
          [''latitude'' \<mapsto> PFloat 21.5, ''longitude'' \<mapsto> PFloat 39.2] None []))
       ''vessel_update_403456789'' = None
   \<and> fst (should_update_vessel plain_builtins 101 ''403456789''
          [''latitude'' \<mapsto> PFloat 21.5, ''longitude'' \<mapsto> PFloat 39.2]
          (Some [''name'' \<mapsto> PStr ''V1'', ''ais_last_position_lat'' \<mapsto> PFloat 21.5,
                 ''ais_last_position_lon'' \<mapsto> PFloat 39.2])
          (snd (should_update_vessel plain_builtins 100 ''403456789''
                  [''latitude'' \<mapsto> PFloat 21.5, ''longitude'' \<mapsto> PFloat 39.2] None [])))"
  by (simp add: should_update_vessel_def position_changed_def evict_def MAX_CACHE_SIZE_def
      rate_limited_def refresh_due_def dget_def dget_or_def)

text \<open>
  C5, amended. A call with no existing record returns \<^verbatim>\<open>True\<close> and leaves the cache as it
  was. Every call with an existing record that returns \<^verbatim>\<open>True\<close> leaves the time of the
  call under the key of the mmsi.
\<close>

theorem acceptance_recorded_for_existing:
  "(fst (should_update_vessel env now mmsi nd None cache)
      \<and> snd (should_update_vessel env now mmsi nd None cache) = cache)
   \<and> (fst (should_update_vessel env now mmsi nd (Some er) cache) \<longrightarrow>
        map_of (snd (should_update_vessel env now mmsi nd (Some er) cache))
          (''vessel_update_'' @ mmsi) = Some now)"
  by (simp add: should_update_vessel_def Let_def update_conv')

theorem acceptance_recorded_witness:
  "fst (should_update_vessel plain_builtins 500 ''403456789'' Map.empty
          (Some [''name'' \<mapsto> PStr ''V1'']) [(''vessel_update_403456789'', 100)])
   \<and> map_of (snd (should_update_vessel plain_builtins 500 ''403456789'' Map.empty
          (Some [''name'' \<mapsto> PStr ''V1'']) [(''vessel_update_403456789'', 100)]))
       ''vessel_update_403456789'' = Some 500"
proof -
  have acc: "fst (should_update_vessel plain_builtins 500 ''403456789'' Map.empty
          (Some [''name'' \<mapsto> PStr ''V1'']) [(''vessel_update_403456789'', 100)])"
    by (simp add: should_update_vessel_def position_changed_def evict_def MAX_CACHE_SIZE_def
        rate_limited_def refresh_due_def dget_def)
  with acceptance_recorded_for_existing
    [of plain_builtins 500 "''403456789''" Map.empty "[(''vessel_update_403456789'', 100)]"
        "[''name'' \<mapsto> PStr ''V1'']"]
  show ?thesis by simp
qed

text \<open>
  C6. Once the cache holds more than \<open>MAX_CACHE_SIZE = 10000\<close> keys, the next call that
  consults it (a call with an existing record) first cuts it down to the first 5000
  entries in descending order of timestamp: these are entries of the cache, none of them
  is older than an entry dropped, and the cache the call leaves is this set with at most
  the key of the call written, so it holds at most 5001 keys and is below the ceiling.
\<close>

theorem eviction_bounds_cache:
  assumes big: "length cache > MAX_CACHE_SIZE" and dist: "distinct (map fst cache)"
  shows "evict cache = take 5000 (sorted_cache cache)
       \<and> length (evict cache) = 5000
       \<and> set (evict cache) \<subseteq> set cache
       \<and> (\<forall>e \<in> set (evict cache). \<forall>d \<in> set cache - set (evict cache). snd d \<le> snd e)
       \<and> (snd (should_update_vessel env now mmsi nd (Some er) cache) = evict cache
          \<or> snd (should_update_vessel env now mmsi nd (Some er) cache)
             = AList.update (''vessel_update_'' @ mmsi) now (evict cache))
       \<and> length (snd (should_update_vessel env now mmsi nd (Some er) cache)) \<le> 5001
       \<and> length (snd (should_update_vessel env now mmsi nd (Some er) cache)) \<le> MAX_CACHE_SIZE"
proof -
  have ev: "evict cache = take 5000 (sorted_cache cache)"
    using big dist by (rule evict_full)
  have len: "length (evict cache) = 5000"
    using big by (simp add: ev length_sorted_cache MAX_CACHE_SIZE_def)
  have sub: "set (evict cache) \<subseteq> set cache"
    unfolding ev using set_take_subset[of 5000 "sorted_cache cache"] by (simp add: set_sorted_cache)
  have newest: "\<forall>e \<in> set (evict cache). \<forall>d \<in> set cache - set (evict cache). snd d \<le> snd e"
    unfolding ev using kept_newest by blast
  have cases: "snd (should_update_vessel env now mmsi nd (Some er) cache) = evict cache
          \<or> snd (should_update_vessel env now mmsi nd (Some er) cache)
             = AList.update (''vessel_update_'' @ mmsi) now (evict cache)"
    by (rule should_update_cache_cases)
  have bound: "length (snd (should_update_vessel env now mmsi nd (Some er) cache)) \<le> 5001"
    using cases len length_update_le[of "''vessel_update_'' @ mmsi" now "evict cache"] by auto
  then have "length (snd (should_update_vessel env now mmsi nd (Some er) cache)) \<le> MAX_CACHE_SIZE"
    by (simp add: MAX_CACHE_SIZE_def)
  with ev len sub newest cases bound show ?thesis by blast
qed

theorem eviction_bounds_cache_witness:
  "length (numbered_cache 10001) > MAX_CACHE_SIZE
   \<and> distinct (map fst (numbered_cache 10001))
   \<and> length (evict (numbered_cache 10001)) = 5000
   \<and> length (snd (should_update_vessel plain_builtins 20000 ''403456789'' Map.empty
                    (Some [''name'' \<mapsto> PStr ''V1'']) (numbered_cache 10001))) \<le> 5001"
proof -
  have big: "length (numbered_cache 10001) > MAX_CACHE_SIZE"
    by (simp add: length_numbered_cache MAX_CACHE_SIZE_def)
  have dist: "distinct (map fst (numbered_cache 10001))"
    by (rule distinct_numbered_cache)
  from eviction_bounds_cache[OF big dist, of plain_builtins 20000 "''403456789''" Map.empty
      "[''name'' \<mapsto> PStr ''V1'']"] big dist
  show ?thesis by blast
qed

section \<open>BatchAggregator\<close>

lemma str_int_403456789: "str_int 403456789 = ''403456789''"
  by (simp add: str_int_def str_nat_small str_nat_large digit_char_def)

lemma enqueue_lookup:
  "map_of (enqueue mmsi vd q) mmsi
     = Some ((case map_of q mmsi of None \<Rightarrow> Map.empty | Some pending \<Rightarrow> pending) ++ vd)"
  by (simp add: enqueue_def update_conv')

lemma enqueue_other: "m \<noteq> mmsi \<Longrightarrow> map_of (enqueue mmsi vd q) m = map_of q m"
  by (simp add: enqueue_def update_conv')

lemma pending_field_enqueue:
  "pending_field (enqueue mmsi vd q) mmsi k
     = (case vd k of Some v \<Rightarrow> Some v | None \<Rightarrow> pending_field q mmsi k)"
  by (simp add: pending_field_def enqueue_lookup map_add_def split: option.splits)

lemma enqueue_nonempty: "enqueue mmsi vd q \<noteq> []"
  by (cases q) (auto simp: enqueue_def)

text \<open>The keys of the dictionary built from a frame do not depend on what the frame
  carries: a \<^verbatim>\<open>PositionReport\<close> always names its seven fields, a \<^verbatim>\<open>ShipStaticData\<close> its six,
  and only the position of a \<^verbatim>\<open>ShipStaticData\<close> is left out when the metadata has none
  (lines 480-485).\<close>

lemma position_report_keys:
  assumes "message_type m = PStr ''PositionReport''"
  shows "\<exists>vd. build_vessel_data m = Inr vd
            \<and> dom vd = {''mmsi'', ''latitude'', ''longitude'', ''speed'', ''course'', ''status'',
                         ''vessel_name''}"
  using assms by (auto simp: build_vessel_data_def Let_def split: if_splits)

lemma ship_static_data_keys:
  assumes "message_type m = PStr ''ShipStaticData''" and "build_vessel_data m = Inr vd"
  shows "dom vd = {''mmsi'', ''vessel_name'', ''destination'', ''call_sign'', ''imo_number'',
                   ''vessel_type''}
                  \<union> (if truthy (dget (meta_data m) ''latitude'')
                         \<and> truthy (dget (meta_data m) ''longitude'')
                      then {''latitude'', ''longitude''} else {})"
  using assms
  by (auto simp: build_vessel_data_def Let_def and_then_def split: if_splits sum.splits)

lemma build_static_sample:
  "build_vessel_data static_sample
     = Inr [''mmsi'' \<mapsto> PInt 403456789, ''vessel_name'' \<mapsto> PStr ''SAUDI TRADER'',
            ''destination'' \<mapsto> PStr ''JEDDAH'', ''call_sign'' \<mapsto> PNone,
            ''imo_number'' \<mapsto> PInt 9123456, ''vessel_type'' \<mapsto> PStr ''Cargo'']"
  by (simp add: build_vessel_data_def static_sample_def py_or_def dget_def dget_or_def
      get_vessel_type_def and_then_def Let_def)

lemma build_report_sample:
  "build_vessel_data report_sample
     = Inr [''mmsi'' \<mapsto> PInt 403456789, ''latitude'' \<mapsto> PFloat 21.5,
            ''longitude'' \<mapsto> PFloat 39.2, ''speed'' \<mapsto> PNone, ''course'' \<mapsto> PNone,
            ''status'' \<mapsto> PStr ''Default'', ''vessel_name'' \<mapsto> PNone]"
  by (simp add: build_vessel_data_def report_sample_def position_frame_def py_or_def dget_def
      dget_or_def get_navigation_status_def)

lemma build_underway_frame:
  "build_vessel_data underway_frame
     = Inr [''mmsi'' \<mapsto> PInt 403456789, ''latitude'' \<mapsto> PFloat 21.5,
            ''longitude'' \<mapsto> PFloat 39.2, ''speed'' \<mapsto> PFloat 12.5, ''course'' \<mapsto> PInt 45,
            ''status'' \<mapsto> PStr ''Under way using engine'', ''vessel_name'' \<mapsto> PNone]"
  by (simp add: build_vessel_data_def underway_frame_def position_frame_def py_or_def dget_def
      dget_or_def get_navigation_status_def)

text \<open>
  C1, at the inputs where the code departs from it. The claim makes the merge of a flush
  window additive: a later update carrying a null for a field never erases an earlier
  non-null value. In the code a later null does erase it. \<^verbatim>\<open>update_queue[mmsi].update(vessel_data)\<close> (line 489) overwrites every key of the
  later dictionary, and the keys are always present. With the aggregator empty, a
  \<^verbatim>\<open>ShipStaticData\<close> of vessel 403456789 named SAUDI TRADER at time 1 leaves that name
  pending; the \<^verbatim>\<open>PositionReport\<close> of the same vessel at time 2, whose metadata has no
  \<^verbatim>\<open>ShipName\<close>, is merged in the same window (nothing is flushed) and leaves the pending
  \<^verbatim>\<open>vessel_name\<close> at \<^verbatim>\<open>None\<close>, next to the destination, IMO number and type it did not name.
  Likewise a report with \<^verbatim>\<open>Sog = 12.5\<close> followed by a report without \<^verbatim>\<open>Sog\<close> leaves the
  pending speed at \<^verbatim>\<open>None\<close>.
\<close>

theorem later_null_erases_pending_value:
  "pending_field
     (update_queue (fst (snd (process_ais_message plain_builtins 1 static_sample empty_aggregator))))
     ''403456789'' ''vessel_name'' = Some (PStr ''SAUDI TRADER'')
   \<and> process_ais_message plain_builtins 2 report_sample
        (fst (snd (process_ais_message plain_builtins 1 static_sample empty_aggregator)))
       = (Success,
          \<lparr>update_queue =
              [(''403456789'',
                [''mmsi'' \<mapsto> PInt 403456789, ''vessel_name'' \<mapsto> PNone,
                 ''destination'' \<mapsto> PStr ''JEDDAH'', ''call_sign'' \<mapsto> PNone,
                 ''imo_number'' \<mapsto> PInt 9123456, ''vessel_type'' \<mapsto> PStr ''Cargo'',
                 ''latitude'' \<mapsto> PFloat 21.5, ''longitude'' \<mapsto> PFloat 39.2,
                 ''speed'' \<mapsto> PNone, ''course'' \<mapsto> PNone, ''status'' \<mapsto> PStr ''Default''])],
            last_batch_time = 0\<rparr>,
          None)
   \<and> pending_field
     (update_queue (fst (snd (process_ais_message plain_builtins 1 underway_frame empty_aggregator))))
     ''403456789'' ''speed'' = Some (PFloat 12.5)
   \<and> pending_field
     (update_queue (fst (snd (process_ais_message plain_builtins 2 report_sample
        (fst (snd (process_ais_message plain_builtins 1 underway_frame empty_aggregator)))))))
     ''403456789'' ''speed'' = Some PNone"
proof -
  have s1: "process_ais_message plain_builtins 1 static_sample empty_aggregator
              = (Success,
                 \<lparr>update_queue =
                     [(''403456789'',
                       [''mmsi'' \<mapsto> PInt 403456789, ''vessel_name'' \<mapsto> PStr ''SAUDI TRADER'',
                        ''destination'' \<mapsto> PStr ''JEDDAH'', ''call_sign'' \<mapsto> PNone,
                        ''imo_number'' \<mapsto> PInt 9123456, ''vessel_type'' \<mapsto> PStr ''Cargo''])],
                   last_batch_time = 0\<rparr>,
                 None)"
    by (simp add: process_ais_message_def build_static_sample dget_def str_int_403456789
        enqueue_def empty_aggregator_def Let_def)
  have s2: "process_ais_message plain_builtins 2 report_sample
              \<lparr>update_queue =
                  [(''403456789'',
                    [''mmsi'' \<mapsto> PInt 403456789, ''vessel_name'' \<mapsto> PStr ''SAUDI TRADER'',
                     ''destination'' \<mapsto> PStr ''JEDDAH'', ''call_sign'' \<mapsto> PNone,
                     ''imo_number'' \<mapsto> PInt 9123456, ''vessel_type'' \<mapsto> PStr ''Cargo''])],
                last_batch_time = 0\<rparr>
              = (Success,
                 \<lparr>update_queue =
                     [(''403456789'',
                       [''mmsi'' \<mapsto> PInt 403456789, ''vessel_name'' \<mapsto> PNone,
                        ''destination'' \<mapsto> PStr ''JEDDAH'', ''call_sign'' \<mapsto> PNone,
                        ''imo_number'' \<mapsto> PInt 9123456, ''vessel_type'' \<mapsto> PStr ''Cargo'',
                        ''latitude'' \<mapsto> PFloat 21.5, ''longitude'' \<mapsto> PFloat 39.2,
                        ''speed'' \<mapsto> PNone, ''course'' \<mapsto> PNone, ''status'' \<mapsto> PStr ''Default''])],
                   last_batch_time = 0\<rparr>,
                 None)"
    by (simp add: process_ais_message_def build_report_sample dget_def str_int_403456789
        enqueue_def Let_def) (auto simp: fun_eq_iff)
  have a1: "pending_field
     (update_queue (fst (snd (process_ais_message plain_builtins 1 underway_frame empty_aggregator))))
     ''403456789'' ''speed'' = Some (PFloat 12.5)"
    by (simp add: process_ais_message_def build_underway_frame dget_def str_int_403456789
        enqueue_def pending_field_def empty_aggregator_def Let_def)
  have a2: "pending_field
     (update_queue (fst (snd (process_ais_message plain_builtins 2 report_sample
        (fst (snd (process_ais_message plain_builtins 1 underway_frame empty_aggregator)))))))
     ''403456789'' ''speed'' = Some PNone"
    by (simp add: process_ais_message_def build_underway_frame build_report_sample dget_def
        str_int_403456789 enqueue_def pending_field_def empty_aggregator_def Let_def)
  have p1: "pending_field
     (update_queue (fst (snd (process_ais_message plain_builtins 1 static_sample empty_aggregator))))
     ''403456789'' ''vessel_name'' = Some (PStr ''SAUDI TRADER'')"
    by (simp add: s1 pending_field_def)
  note p2 = s2[folded s1[THEN arg_cong, of "\<lambda>r. fst (snd r)", simplified]]
  from p1 p2 a1 a2 show ?thesis by (intro conjI)
qed

text \<open>
  The merge in general. A frame whose dictionary \<open>vd\<close> has a truthy mmsi is merged into
  the pending record of \<^verbatim>\<open>str(mmsi)\<close> by overwriting: every key of \<open>vd\<close> takes the value \<open>vd\<close>
  gives it, \<^verbatim>\<open>None\<close> included, every other field of the pending record and every other
  pending record keep their value; the merged queue is either kept (no flush due) or
  handed over whole as the batch.
\<close>

theorem enqueue_overwrites_named_fields:
  assumes "build_vessel_data m = Inr vd" and "truthy (dget vd ''mmsi'')"
    and "py_str env (dget vd ''mmsi'') = mmsi"
  shows "(if now - last_batch_time st > 10 \<or> length (enqueue mmsi vd (update_queue st)) \<ge> 50
          then process_ais_message env now m st
               = (Success, \<lparr>update_queue = [], last_batch_time = now\<rparr>,
                  Some (map snd (enqueue mmsi vd (update_queue st))))
          else process_ais_message env now m st
               = (Success, st\<lparr>update_queue := enqueue mmsi vd (update_queue st)\<rparr>, None))
       \<and> (\<forall>k. pending_field (enqueue mmsi vd (update_queue st)) mmsi k
              = (case vd k of Some v \<Rightarrow> Some v | None \<Rightarrow> pending_field (update_queue st) mmsi k))
       \<and> (\<forall>other k. other \<noteq> mmsi \<longrightarrow>
              pending_field (enqueue mmsi vd (update_queue st)) other k
              = pending_field (update_queue st) other k)"
proof (intro conjI allI impI)
  show "if now - last_batch_time st > 10 \<or> length (enqueue mmsi vd (update_queue st)) \<ge> 50
          then process_ais_message env now m st
               = (Success, \<lparr>update_queue = [], last_batch_time = now\<rparr>,
                  Some (map snd (enqueue mmsi vd (update_queue st))))
          else process_ais_message env now m st
               = (Success, st\<lparr>update_queue := enqueue mmsi vd (update_queue st)\<rparr>, None)"
    using assms
    by (simp add: process_ais_message_def Let_def process_batch_queue_def enqueue_nonempty)
next
  fix k
  show "pending_field (enqueue mmsi vd (update_queue st)) mmsi k
          = (case vd k of Some v \<Rightarrow> Some v | None \<Rightarrow> pending_field (update_queue st) mmsi k)"
    by (rule pending_field_enqueue)
next
  fix other k
  assume "other \<noteq> mmsi"
  then show "pending_field (enqueue mmsi vd (update_queue st)) other k
          = pending_field (update_queue st) other k"
    by (simp add: pending_field_def enqueue_other)
qed

section \<open>The prepared operations, field by field\<close>

lemma and_then_Inr: "and_then r f = Inr y \<longleftrightarrow> (\<exists>x. r = Inr x \<and> f x = Inr y)"
  by (cases r) (simp_all add: and_then_def)

subsection \<open>The steps of \<^verbatim>\<open>prepare_vessel_update\<close>\<close>

lemma upd_float_skip: "\<not> c \<Longrightarrow> upd_float env c v col ph acc = Inr acc"
  by (simp add: upd_float_def)

lemma upd_float_vals:
  "upd_float env c v col ph acc = Inr acc' \<Longrightarrow> ph \<noteq> k \<Longrightarrow> snd acc' k = snd acc k"
  by (auto simp: upd_float_def split: if_splits sum.splits)

lemma upd_float_cols:
  "upd_float env c v col ph acc = Inr acc' \<Longrightarrow> col \<noteq> x \<Longrightarrow>
   x \<in> fst ` set (fst acc') \<longleftrightarrow> x \<in> fst ` set (fst acc)"
  by (auto simp: upd_float_def split: if_splits sum.splits)

lemma upd_status_vals: "''status'' \<noteq> k \<Longrightarrow> snd (upd_status vd acc) k = snd acc k"
  by (simp add: upd_status_def)

lemma upd_status_cols:
  "''ais_status'' \<noteq> x \<Longrightarrow> x \<in> fst ` set (fst (upd_status vd acc)) \<longleftrightarrow> x \<in> fst ` set (fst acc)"
  by (auto simp: upd_status_def)

lemma upd_destination_vals:
  "upd_destination env vd acc = Inr acc' \<Longrightarrow> ''destination'' \<noteq> k \<Longrightarrow> snd acc' k = snd acc k"
  by (auto simp: upd_destination_def Let_def split: if_splits pyval.splits)

lemma upd_destination_cols:
  "upd_destination env vd acc = Inr acc' \<Longrightarrow> ''ais_destination'' \<noteq> x \<Longrightarrow>
   x \<in> fst ` set (fst acc') \<longleftrightarrow> x \<in> fst ` set (fst acc)"
  by (auto simp: upd_destination_def Let_def split: if_splits pyval.splits)

lemma upd_name_vals:
  "upd_name vd er acc = Inr acc' \<Longrightarrow> ''new_vessel_name'' \<noteq> k \<Longrightarrow> snd acc' k = snd acc k"
  by (auto simp: upd_name_def and_then_Inr split: if_splits)

lemma upd_name_cols:
  "upd_name vd er acc = Inr acc' \<Longrightarrow> ''vessel_name'' \<noteq> x \<Longrightarrow>
   x \<in> fst ` set (fst acc') \<longleftrightarrow> x \<in> fst ` set (fst acc)"
  by (auto simp: upd_name_def and_then_Inr split: if_splits)

lemma upd_name_written:
  "upd_name vd er acc = Inr acc' \<Longrightarrow>
   snd acc' ''new_vessel_name'' = snd acc ''new_vessel_name'' \<or>
   (\<exists>s. dget vd ''vessel_name'' = PStr s \<and>
        snd acc' ''new_vessel_name'' = Some (PStr (take 140 (strip s))))"
  by (auto simp: upd_name_def and_then_Inr clean_name_def split: if_splits pyval.splits)

lemma upd_imo_vals: "''imo_number'' \<noteq> k \<Longrightarrow> snd (upd_imo env vd acc) k = snd acc k"
  by (simp add: upd_imo_def)

lemma upd_imo_cols:
  "''imo_number'' \<noteq> x \<Longrightarrow> x \<in> fst ` set (fst (upd_imo env vd acc)) \<longleftrightarrow> x \<in> fst ` set (fst acc)"
  by (auto simp: upd_imo_def)

lemma prepare_vessel_update_steps:
  assumes "prepare_vessel_update env amb mmsi vd er = Inr u"
  obtains nm a1 a2 a3 a4 a5 a6 where
    "er ''name'' = Some nm"
    and "upd_float env (truthy (dget vd ''latitude'')) (dget vd ''latitude'')
           ''ais_last_position_lat'' ''latitude'' ([], [''vessel_name'' \<mapsto> nm]) = Inr a1"
    and "upd_float env (truthy (dget vd ''longitude'')) (dget vd ''longitude'')
           ''ais_last_position_lon'' ''longitude'' a1 = Inr a2"
    and "upd_float env (dget vd ''speed'' \<noteq> PNone) (dget vd ''speed'') ''ais_speed'' ''speed'' a2 = Inr a3"
    and "upd_float env (dget vd ''course'' \<noteq> PNone) (dget vd ''course'') ''ais_course'' ''course'' a3 = Inr a4"
    and "upd_destination env vd (upd_status vd a4) = Inr a5"
    and "upd_name vd er a5 = Inr a6"
    and "u = SqlUpdate
               (fst (upd_imo env vd a6) @ [(''ais_last_update'', ''update_time''), (''modified'', ''modified_time'')])
               ((snd (upd_imo env vd a6))(''update_time'' \<mapsto> PDatetime (wall amb),
                                         ''modified_time'' \<mapsto> PDatetime (wall amb)))"
  using assms
  by (auto simp: prepare_vessel_update_def and_then_Inr Let_def split: option.splits)


text \<open>The name the update writes is the trimmed name cut to 140 characters.\<close>

lemma prepare_vessel_update_name:
  assumes "prepare_vessel_update env amb mmsi vd er = Inr (SqlUpdate cl vals)"
    and "vals ''new_vessel_name'' = Some v"
  shows "\<exists>s. dget vd ''vessel_name'' = PStr s \<and> v = PStr (take 140 (strip s))"
proof -
  from assms(1) obtain nm a1 a2 a3 a4 a5 a6 where
    s1: "upd_float env (truthy (dget vd ''latitude'')) (dget vd ''latitude'')
           ''ais_last_position_lat'' ''latitude'' ([], [''vessel_name'' \<mapsto> nm]) = Inr a1"
    and s2: "upd_float env (truthy (dget vd ''longitude'')) (dget vd ''longitude'')
           ''ais_last_position_lon'' ''longitude'' a1 = Inr a2"
    and s3: "upd_float env (dget vd ''speed'' \<noteq> PNone) (dget vd ''speed'') ''ais_speed'' ''speed'' a2 = Inr a3"
    and s4: "upd_float env (dget vd ''course'' \<noteq> PNone) (dget vd ''course'') ''ais_course'' ''course'' a3 = Inr a4"
    and s5: "upd_destination env vd (upd_status vd a4) = Inr a5"
    and s6: "upd_name vd er a5 = Inr a6"
    and u: "SqlUpdate cl vals = SqlUpdate
               (fst (upd_imo env vd a6) @ [(''ais_last_update'', ''update_time''), (''modified'', ''modified_time'')])
               ((snd (upd_imo env vd a6))(''update_time'' \<mapsto> PDatetime (wall amb),
                                         ''modified_time'' \<mapsto> PDatetime (wall amb)))"
    by (rule prepare_vessel_update_steps)
  have before: "snd a5 ''new_vessel_name'' = None"
    using upd_float_vals[OF s1, of "''new_vessel_name''"] upd_float_vals[OF s2, of "''new_vessel_name''"]
      upd_float_vals[OF s3, of "''new_vessel_name''"] upd_float_vals[OF s4, of "''new_vessel_name''"]
      upd_destination_vals[OF s5, of "''new_vessel_name''"]
      upd_status_vals[of "''new_vessel_name''" vd a4]
    by simp
  have "vals ''new_vessel_name'' = snd a6 ''new_vessel_name''"
    using u upd_imo_vals[of "''new_vessel_name''" env vd a6] by simp
  with assms(2) before upd_name_written[OF s6] show ?thesis by auto
qed

text \<open>A falsy latitude or longitude of the update is left out of the SQL update.\<close>

lemma prepare_vessel_update_omits:
  assumes "prepare_vessel_update env amb mmsi vd er = Inr (SqlUpdate cl vals)"
  shows "(\<not> truthy (dget vd ''latitude'') \<longrightarrow>
            vals ''latitude'' = None \<and> ''ais_last_position_lat'' \<notin> fst ` set cl)
       \<and> (\<not> truthy (dget vd ''longitude'') \<longrightarrow>
            vals ''longitude'' = None \<and> ''ais_last_position_lon'' \<notin> fst ` set cl)"
proof -
  from assms(1) obtain nm a1 a2 a3 a4 a5 a6 where
    s1: "upd_float env (truthy (dget vd ''latitude'')) (dget vd ''latitude'')
           ''ais_last_position_lat'' ''latitude'' ([], [''vessel_name'' \<mapsto> nm]) = Inr a1"
    and s2: "upd_float env (truthy (dget vd ''longitude'')) (dget vd ''longitude'')
           ''ais_last_position_lon'' ''longitude'' a1 = Inr a2"
    and s3: "upd_float env (dget vd ''speed'' \<noteq> PNone) (dget vd ''speed'') ''ais_speed'' ''speed'' a2 = Inr a3"
    and s4: "upd_float env (dget vd ''course'' \<noteq> PNone) (dget vd ''course'') ''ais_course'' ''course'' a3 = Inr a4"
    and s5: "upd_destination env vd (upd_status vd a4) = Inr a5"
    and s6: "upd_name vd er a5 = Inr a6"
    and u: "SqlUpdate cl vals = SqlUpdate
               (fst (upd_imo env vd a6) @ [(''ais_last_update'', ''update_time''), (''modified'', ''modified_time'')])
               ((snd (upd_imo env vd a6))(''update_time'' \<mapsto> PDatetime (wall amb),
                                         ''modified_time'' \<mapsto> PDatetime (wall amb)))"
    by (rule prepare_vessel_update_steps)
  have lat: "vals ''latitude'' = None \<and> ''ais_last_position_lat'' \<notin> fst ` set cl"
    if "\<not> truthy (dget vd ''latitude'')"
  proof -
    from that s1 have a1: "a1 = ([], [''vessel_name'' \<mapsto> nm])"
      by (simp add: upd_float_skip)
    have "snd (upd_imo env vd a6) ''latitude'' = None"
      using a1 upd_float_vals[OF s2, of "''latitude''"]
        upd_float_vals[OF s3, of "''latitude''"] upd_float_vals[OF s4, of "''latitude''"]
        upd_destination_vals[OF s5, of "''latitude''"] upd_name_vals[OF s6, of "''latitude''"]
        upd_status_vals[of "''latitude''" vd a4] upd_imo_vals[of "''latitude''" env vd a6]
      by simp
    moreover have "''ais_last_position_lat'' \<notin> fst ` set (fst (upd_imo env vd a6))"
      using a1 upd_float_cols[OF s2, of "''ais_last_position_lat''"]
        upd_float_cols[OF s3, of "''ais_last_position_lat''"]
        upd_float_cols[OF s4, of "''ais_last_position_lat''"]
        upd_destination_cols[OF s5, of "''ais_last_position_lat''"]
        upd_name_cols[OF s6, of "''ais_last_position_lat''"]
        upd_status_cols[of "''ais_last_position_lat''" vd a4]
        upd_imo_cols[of "''ais_last_position_lat''" env vd a6]
      by simp
    ultimately show ?thesis using u by simp
  qed
  have lon: "vals ''longitude'' = None \<and> ''ais_last_position_lon'' \<notin> fst ` set cl"
    if "\<not> truthy (dget vd ''longitude'')"
  proof -
    from that s2 have a2: "a2 = a1"
      by (simp add: upd_float_skip)
    have "snd (upd_imo env vd a6) ''longitude'' = None"
      using a2 upd_float_vals[OF s1, of "''longitude''"]
        upd_float_vals[OF s3, of "''longitude''"] upd_float_vals[OF s4, of "''longitude''"]
        upd_destination_vals[OF s5, of "''longitude''"] upd_name_vals[OF s6, of "''longitude''"]
        upd_status_vals[of "''longitude''" vd a4] upd_imo_vals[of "''longitude''" env vd a6]
      by simp
    moreover have "''ais_last_position_lon'' \<notin> fst ` set (fst (upd_imo env vd a6))"
      using a2 upd_float_cols[OF s1, of "''ais_last_position_lon''"]
        upd_float_cols[OF s3, of "''ais_last_position_lon''"]
        upd_float_cols[OF s4, of "''ais_last_position_lon''"]
        upd_destination_cols[OF s5, of "''ais_last_position_lon''"]
        upd_name_cols[OF s6, of "''ais_last_position_lon''"]
        upd_status_cols[of "''ais_last_position_lon''" vd a4]
        upd_imo_cols[of "''ais_last_position_lon''" env vd a6]
      by simp
    ultimately show ?thesis using u by simp
  qed
  from lat lon show ?thesis by blast
qed

subsection \<open>The steps of \<^verbatim>\<open>prepare_vessel_insert\<close> and \<^verbatim>\<open>prepare_mmsi_update\<close>\<close>

lemma ins_float_skip: "\<not> c \<Longrightarrow> ins_float env c v col d = Inr d"
  by (simp add: ins_float_def)

lemma ins_float_other: "ins_float env c v col d = Inr d' \<Longrightarrow> col \<noteq> k \<Longrightarrow> d' k = d k"
  by (auto simp: ins_float_def split: if_splits sum.splits)

lemma ins_status_other: "''ais_status'' \<noteq> k \<Longrightarrow> ins_status vd d k = d k"
  by (simp add: ins_status_def)

lemma ins_destination_other: "''ais_destination'' \<noteq> k \<Longrightarrow> ins_destination env vd d k = d k"
  by (simp add: ins_destination_def Let_def)

lemma merge_name_other: "''vessel_name'' \<noteq> k \<Longrightarrow> merge_name env vd er d k = d k"
  by (simp add: merge_name_def Let_def)

lemma prepare_vessel_insert_steps:
  assumes "prepare_vessel_insert env taken amb mmsi vd = Inr i"
  obtains nm d1 d2 d3 d4 where
    "insert_name mmsi vd = Inr nm"
    and "ins_float env (truthy (dget vd ''latitude'')) (dget vd ''latitude'') ''ais_last_position_lat''
           [''name'' \<mapsto> PStr (fresh_hash amb),
            ''vessel_name'' \<mapsto> PStr nm,
            ''imo_number'' \<mapsto> PStr (insert_imo env taken mmsi vd),
            ''ais_mmsi'' \<mapsto> PStr mmsi,
            ''grt'' \<mapsto> PStr ''0'',
            ''dwt'' \<mapsto> PStr ''0'',
            ''ais_last_update'' \<mapsto> PDatetime (wall amb),
            ''creation'' \<mapsto> PDatetime (wall amb),
            ''modified'' \<mapsto> PDatetime (wall amb),
            ''owner'' \<mapsto> PStr ''Administrator'',
            ''modified_by'' \<mapsto> PStr ''Administrator''] = Inr d1"
    and "ins_float env (truthy (dget vd ''longitude'')) (dget vd ''longitude'') ''ais_last_position_lon'' d1 = Inr d2"
    and "ins_float env (dget vd ''speed'' \<noteq> PNone) (dget vd ''speed'') ''ais_speed'' d2 = Inr d3"
    and "ins_float env (dget vd ''course'' \<noteq> PNone) (dget vd ''course'') ''ais_course'' d3 = Inr d4"
    and "i = ins_destination env vd (ins_status vd d4)"
  using assms
  by (auto simp: prepare_vessel_insert_def and_then_Inr Let_def)

text \<open>The identity columns of a prepared insert.\<close>

lemma prepare_vessel_insert_identity:
  assumes "prepare_vessel_insert env taken amb mmsi vd = Inr i"
  shows "i ''ais_mmsi'' = Some (PStr mmsi)
       \<and> i ''imo_number'' = Some (PStr (insert_imo env taken mmsi vd))
       \<and> (\<exists>nm. insert_name mmsi vd = Inr nm \<and> i ''vessel_name'' = Some (PStr nm))"
proof -
  from assms obtain nm d1 d2 d3 d4 where
    nm: "insert_name mmsi vd = Inr nm"
    and s1: "ins_float env (truthy (dget vd ''latitude'')) (dget vd ''latitude'') ''ais_last_position_lat''
           [''name'' \<mapsto> PStr (fresh_hash amb),
            ''vessel_name'' \<mapsto> PStr nm,
            ''imo_number'' \<mapsto> PStr (insert_imo env taken mmsi vd),
            ''ais_mmsi'' \<mapsto> PStr mmsi,
            ''grt'' \<mapsto> PStr ''0'',
            ''dwt'' \<mapsto> PStr ''0'',
            ''ais_last_update'' \<mapsto> PDatetime (wall amb),
            ''creation'' \<mapsto> PDatetime (wall amb),
            ''modified'' \<mapsto> PDatetime (wall amb),
            ''owner'' \<mapsto> PStr ''Administrator'',
            ''modified_by'' \<mapsto> PStr ''Administrator''] = Inr d1"
    and s2: "ins_float env (truthy (dget vd ''longitude'')) (dget vd ''longitude'') ''ais_last_position_lon'' d1 = Inr d2"
    and s3: "ins_float env (dget vd ''speed'' \<noteq> PNone) (dget vd ''speed'') ''ais_speed'' d2 = Inr d3"
    and s4: "ins_float env (dget vd ''course'' \<noteq> PNone) (dget vd ''course'') ''ais_course'' d3 = Inr d4"
    and i: "i = ins_destination env vd (ins_status vd d4)"
    by (rule prepare_vessel_insert_steps)
  have keep: "i k = d1 k"
    if "k \<noteq> ''ais_last_position_lon''" "k \<noteq> ''ais_speed''" "k \<noteq> ''ais_course''"
       "k \<noteq> ''ais_status''" "k \<noteq> ''ais_destination''" for k
    using that i ins_float_other[OF s2, of k] ins_float_other[OF s3, of k]
      ins_float_other[OF s4, of k] ins_status_other[of k vd d4]
      ins_destination_other[of k env vd "ins_status vd d4"]
    by simp
  have "i ''ais_mmsi'' = Some (PStr mmsi)"
    using keep[of "''ais_mmsi''"] ins_float_other[OF s1, of "''ais_mmsi''"] by simp
  moreover have "i ''imo_number'' = Some (PStr (insert_imo env taken mmsi vd))"
    using keep[of "''imo_number''"] ins_float_other[OF s1, of "''imo_number''"] by simp
  moreover have "i ''vessel_name'' = Some (PStr nm)"
    using keep[of "''vessel_name''"] ins_float_other[OF s1, of "''vessel_name''"] by simp
  ultimately show ?thesis using nm by simp
qed

lemma prepare_vessel_insert_omits:
  assumes "prepare_vessel_insert env taken amb mmsi vd = Inr i"
  shows "(\<not> truthy (dget vd ''latitude'') \<longrightarrow> i ''ais_last_position_lat'' = None)
       \<and> (\<not> truthy (dget vd ''longitude'') \<longrightarrow> i ''ais_last_position_lon'' = None)"
proof -
  from assms obtain nm d1 d2 d3 d4 where
    s1: "ins_float env (truthy (dget vd ''latitude'')) (dget vd ''latitude'') ''ais_last_position_lat''
           [''name'' \<mapsto> PStr (fresh_hash amb),
            ''vessel_name'' \<mapsto> PStr nm,
            ''imo_number'' \<mapsto> PStr (insert_imo env taken mmsi vd),
            ''ais_mmsi'' \<mapsto> PStr mmsi,
            ''grt'' \<mapsto> PStr ''0'',
            ''dwt'' \<mapsto> PStr ''0'',
            ''ais_last_update'' \<mapsto> PDatetime (wall amb),
            ''creation'' \<mapsto> PDatetime (wall amb),
            ''modified'' \<mapsto> PDatetime (wall amb),
            ''owner'' \<mapsto> PStr ''Administrator'',
            ''modified_by'' \<mapsto> PStr ''Administrator''] = Inr d1"
    and s2: "ins_float env (truthy (dget vd ''longitude'')) (dget vd ''longitude'') ''ais_last_position_lon'' d1 = Inr d2"
    and s3: "ins_float env (dget vd ''speed'' \<noteq> PNone) (dget vd ''speed'') ''ais_speed'' d2 = Inr d3"
    and s4: "ins_float env (dget vd ''course'' \<noteq> PNone) (dget vd ''course'') ''ais_course'' d3 = Inr d4"
    and i: "i = ins_destination env vd (ins_status vd d4)"
    by (rule prepare_vessel_insert_steps)
  have lat: "i ''ais_last_position_lat'' = None" if "\<not> truthy (dget vd ''latitude'')"
  proof -
    from that s1 have "d1 ''ais_last_position_lat'' = None"
      by (auto simp: ins_float_skip)
    then show ?thesis
      using i ins_float_other[OF s2, of "''ais_last_position_lat''"]
        ins_float_other[OF s3, of "''ais_last_position_lat''"]
        ins_float_other[OF s4, of "''ais_last_position_lat''"]
        ins_status_other[of "''ais_last_position_lat''" vd d4]
        ins_destination_other[of "''ais_last_position_lat''" env vd "ins_status vd d4"]
      by simp
  qed
  have lon: "i ''ais_last_position_lon'' = None" if "\<not> truthy (dget vd ''longitude'')"
  proof -
    from that s2 have "d2 = d1"
      by (simp add: ins_float_skip)
    then have "d2 ''ais_last_position_lon'' = None"
      using ins_float_other[OF s1, of "''ais_last_position_lon''"] by simp
    then show ?thesis
      using i ins_float_other[OF s3, of "''ais_last_position_lon''"]
        ins_float_other[OF s4, of "''ais_last_position_lon''"]
        ins_status_other[of "''ais_last_position_lon''" vd d4]
        ins_destination_other[of "''ais_last_position_lon''" env vd "ins_status vd d4"]
      by simp
  qed
  from lat lon show ?thesis by blast
qed

lemma prepare_mmsi_update_steps:
  assumes "prepare_mmsi_update env amb mmsi vd er = Inr u"
  obtains d1 d2 d3 d4 where
    "ins_float env (truthy (dget vd ''latitude'')) (dget vd ''latitude'') ''ais_last_position_lat''
       (merge_name env vd er
          [''ais_mmsi'' \<mapsto> PStr mmsi,
           ''modified'' \<mapsto> PDatetime (wall amb),
           ''modified_by'' \<mapsto> PStr ''Administrator'']) = Inr d1"
    and "ins_float env (truthy (dget vd ''longitude'')) (dget vd ''longitude'') ''ais_last_position_lon'' d1 = Inr d2"
    and "ins_float env (dget vd ''speed'' \<noteq> PNone) (dget vd ''speed'') ''ais_speed'' d2 = Inr d3"
    and "ins_float env (dget vd ''course'' \<noteq> PNone) (dget vd ''course'') ''ais_course'' d3 = Inr d4"
    and "u = DataUpdate (dget er ''name'')
               ((ins_destination env vd (ins_status vd d4))(''ais_last_update'' \<mapsto> PDatetime (wall amb)))"
  using assms
  by (auto simp: prepare_mmsi_update_def and_then_Inr Let_def)

text \<open>The identity merge addresses the record found, sets its \<^verbatim>\<open>ais_mmsi\<close> to the
  incoming mmsi and does not write \<^verbatim>\<open>name\<close>, the stable identifier.\<close>

lemma prepare_mmsi_update_shape:
  assumes "prepare_mmsi_update env amb mmsi vd er = Inr u"
  shows "\<exists>data. u = DataUpdate (dget er ''name'') data
           \<and> data ''ais_mmsi'' = Some (PStr mmsi) \<and> data ''name'' = None"
proof -
  from assms obtain d1 d2 d3 d4 where
    s1: "ins_float env (truthy (dget vd ''latitude'')) (dget vd ''latitude'') ''ais_last_position_lat''
       (merge_name env vd er
          [''ais_mmsi'' \<mapsto> PStr mmsi,
           ''modified'' \<mapsto> PDatetime (wall amb),
           ''modified_by'' \<mapsto> PStr ''Administrator'']) = Inr d1"
    and s2: "ins_float env (truthy (dget vd ''longitude'')) (dget vd ''longitude'') ''ais_last_position_lon'' d1 = Inr d2"
    and s3: "ins_float env (dget vd ''speed'' \<noteq> PNone) (dget vd ''speed'') ''ais_speed'' d2 = Inr d3"
    and s4: "ins_float env (dget vd ''course'' \<noteq> PNone) (dget vd ''course'') ''ais_course'' d3 = Inr d4"
    and u: "u = DataUpdate (dget er ''name'')
               ((ins_destination env vd (ins_status vd d4))(''ais_last_update'' \<mapsto> PDatetime (wall amb)))"
    by (rule prepare_mmsi_update_steps)
  have mm: "ins_destination env vd (ins_status vd d4) ''ais_mmsi'' = Some (PStr mmsi)"
    using ins_float_other[OF s1, of "''ais_mmsi''"] ins_float_other[OF s2, of "''ais_mmsi''"]
      ins_float_other[OF s3, of "''ais_mmsi''"] ins_float_other[OF s4, of "''ais_mmsi''"]
      ins_status_other[of "''ais_mmsi''" vd d4]
      ins_destination_other[of "''ais_mmsi''" env vd "ins_status vd d4"]
      merge_name_other[of "''ais_mmsi''" env vd er]
    by simp
  have nn: "ins_destination env vd (ins_status vd d4) ''name'' = None"
    using ins_float_other[OF s1, of "''name''"] ins_float_other[OF s2, of "''name''"]
      ins_float_other[OF s3, of "''name''"] ins_float_other[OF s4, of "''name''"]
      ins_status_other[of "''name''" vd d4]
      ins_destination_other[of "''name''" env vd "ins_status vd d4"]
      merge_name_other[of "''name''" env vd er]
    by simp
  show ?thesis
    using u mm nn by simp
qed

lemma prepare_mmsi_update_omits:
  assumes "prepare_mmsi_update env amb mmsi vd er = Inr (DataUpdate nm data)"
  shows "(\<not> truthy (dget vd ''latitude'') \<longrightarrow> data ''ais_last_position_lat'' = None)
       \<and> (\<not> truthy (dget vd ''longitude'') \<longrightarrow> data ''ais_last_position_lon'' = None)"
proof -
  from assms obtain d1 d2 d3 d4 where
    s1: "ins_float env (truthy (dget vd ''latitude'')) (dget vd ''latitude'') ''ais_last_position_lat''
       (merge_name env vd er
          [''ais_mmsi'' \<mapsto> PStr mmsi,
           ''modified'' \<mapsto> PDatetime (wall amb),
           ''modified_by'' \<mapsto> PStr ''Administrator'']) = Inr d1"
    and s2: "ins_float env (truthy (dget vd ''longitude'')) (dget vd ''longitude'') ''ais_last_position_lon'' d1 = Inr d2"
    and s3: "ins_float env (dget vd ''speed'' \<noteq> PNone) (dget vd ''speed'') ''ais_speed'' d2 = Inr d3"
    and s4: "ins_float env (dget vd ''course'' \<noteq> PNone) (dget vd ''course'') ''ais_course'' d3 = Inr d4"
    and u: "DataUpdate nm data = DataUpdate (dget er ''name'')
               ((ins_destination env vd (ins_status vd d4))(''ais_last_update'' \<mapsto> PDatetime (wall amb)))"
    by (rule prepare_mmsi_update_steps)
  have lat: "data ''ais_last_position_lat'' = None" if "\<not> truthy (dget vd ''latitude'')"
  proof -
    from that s1 have "d1 ''ais_last_position_lat'' = None"
      using merge_name_other[of "''ais_last_position_lat''" env vd er]
      by (auto simp: ins_float_skip)
    then show ?thesis
      using u ins_float_other[OF s2, of "''ais_last_position_lat''"]
        ins_float_other[OF s3, of "''ais_last_position_lat''"]
        ins_float_other[OF s4, of "''ais_last_position_lat''"]
        ins_status_other[of "''ais_last_position_lat''" vd d4]
        ins_destination_other[of "''ais_last_position_lat''" env vd "ins_status vd d4"]
      by simp
  qed
  have lon: "data ''ais_last_position_lon'' = None" if "\<not> truthy (dget vd ''longitude'')"
  proof -
    from that s2 have "d2 = d1"
      by (simp add: ins_float_skip)
    then have "d2 ''ais_last_position_lon'' = None"
      using ins_float_other[OF s1, of "''ais_last_position_lon''"]
        merge_name_other[of "''ais_last_position_lon''" env vd er] by simp
    then show ?thesis
      using u ins_float_other[OF s3, of "''ais_last_position_lon''"]
        ins_float_other[OF s4, of "''ais_last_position_lon''"]
        ins_status_other[of "''ais_last_position_lon''" vd d4]
        ins_destination_other[of "''ais_last_position_lon''" env vd "ins_status vd d4"]
      by simp
  qed
  from lat lon show ?thesis by blast
qed


section \<open>IdentityResolver\<close>

lemma ins_float_converts: "converts env c v \<Longrightarrow> \<exists>d'. ins_float env c v col d = Inr d'"
  by (auto simp: converts_def ins_float_def split: if_splits sum.splits)

lemma prepare_mmsi_update_total:
  assumes "floats_convert env vd"
  shows "\<exists>u. prepare_mmsi_update env amb mmsi vd er = Inr u"
proof -
  let ?d0 = "merge_name env vd er
          [''ais_mmsi'' \<mapsto> PStr mmsi,
           ''modified'' \<mapsto> PDatetime (wall amb),
           ''modified_by'' \<mapsto> PStr ''Administrator'']"
  from assms obtain d1 where
    s1: "ins_float env (truthy (dget vd ''latitude'')) (dget vd ''latitude'') ''ais_last_position_lat'' ?d0 = Inr d1"
    unfolding floats_convert_def using ins_float_converts by blast
  from assms obtain d2 where
    s2: "ins_float env (truthy (dget vd ''longitude'')) (dget vd ''longitude'') ''ais_last_position_lon'' d1 = Inr d2"
    unfolding floats_convert_def using ins_float_converts by blast
  from assms obtain d3 where
    s3: "ins_float env (dget vd ''speed'' \<noteq> PNone) (dget vd ''speed'') ''ais_speed'' d2 = Inr d3"
    unfolding floats_convert_def using ins_float_converts by blast
  from assms obtain d4 where
    s4: "ins_float env (dget vd ''course'' \<noteq> PNone) (dget vd ''course'') ''ais_course'' d3 = Inr d4"
    unfolding floats_convert_def using ins_float_converts by blast
  show ?thesis
    by (simp add: prepare_mmsi_update_def Let_def and_then_def s1 s2 s3 s4)
qed

lemma prepare_mmsi_update_clock:
  "prepare_mmsi_update env (amb\<lparr>clock := t\<rparr>) mmsi vd er = prepare_mmsi_update env amb mmsi vd er"
  by (simp add: prepare_mmsi_update_def)

lemma batch_item_merge:
  assumes "py_str env (dget vd ''mmsi'') = mmsi" and "mmsi \<noteq> []"
    and "ev (PStr mmsi) = None" and "genuine_imo (dget vd ''imo_number'')"
    and "ev (PStr (''IMO-'' @ py_str env (dget vd ''imo_number''))) = Some r"
  shows "batch_item env taken ev amb vd (cache, ups, ins)
           = (cache, and_then (prepare_mmsi_update env amb mmsi vd r) (\<lambda>u. Inr (ups @ [u], ins)))"
  using assms by (simp add: batch_item_def Let_def)



lemma gate_and_prepare_accepted:
  assumes "fst (should_update_vessel env (clock amb) mmsi vd (Some r) cache)"
  shows "snd (gate_and_prepare env taken amb mmsi vd (Some r) (cache, ups, ins))
           = and_then (prepare_vessel_update env amb mmsi vd r) (\<lambda>u. Inr (ups @ [u], ins))"
  using assms by (simp add: gate_and_prepare_def Let_def)

lemma gate_and_prepare_rejected:
  assumes "\<not> fst (should_update_vessel env (clock amb) mmsi vd (Some r) cache)"
  shows "snd (gate_and_prepare env taken amb mmsi vd (Some r) (cache, ups, ins)) = Inr (ups, ins)"
  using assms by (simp add: gate_and_prepare_def Let_def)


text \<open>
  C9. An update whose mmsi matches no record while its genuine IMO number matches the
  record \<open>r\<close> goes to \<^verbatim>\<open>prepare_mmsi_update\<close> whatever the clock reads and whatever the
  cache holds: the cache comes back as it was (no timestamp is recorded), and the
  outcome is the same for every clock reading and cache. Where the numeric fields of the
  update convert, the outcome is one more update, of the data form, on \<open>r\<close>.
\<close>

theorem identity_merge_bypasses_gate:
  assumes "py_str env (dget vd ''mmsi'') = mmsi" and "mmsi \<noteq> []"
    and "ev (PStr mmsi) = None" and "genuine_imo (dget vd ''imo_number'')"
    and "ev (PStr (''IMO-'' @ py_str env (dget vd ''imo_number''))) = Some r"
  shows "(\<forall>t cache. batch_item env taken ev (amb\<lparr>clock := t\<rparr>) vd (cache, ups, ins)
            = (cache, and_then (prepare_mmsi_update env amb mmsi vd r) (\<lambda>u. Inr (ups @ [u], ins))))
       \<and> (floats_convert env vd \<longrightarrow>
            (\<exists>data. and_then (prepare_mmsi_update env amb mmsi vd r) (\<lambda>u. Inr (ups @ [u], ins))
                      = Inr (ups @ [DataUpdate (dget r ''name'') data], ins)
                  \<and> data ''ais_mmsi'' = Some (PStr mmsi)))"
proof (intro conjI allI impI)
  fix t cache
  show "batch_item env taken ev (amb\<lparr>clock := t\<rparr>) vd (cache, ups, ins)
            = (cache, and_then (prepare_mmsi_update env amb mmsi vd r) (\<lambda>u. Inr (ups @ [u], ins)))"
    using batch_item_merge[OF assms, of taken "amb\<lparr>clock := t\<rparr>" cache ups ins]
    by (simp add: prepare_mmsi_update_clock)
next
  assume "floats_convert env vd"
  then obtain u where u: "prepare_mmsi_update env amb mmsi vd r = Inr u"
    using prepare_mmsi_update_total by blast
  then obtain data where "u = DataUpdate (dget r ''name'') data"
    and "data ''ais_mmsi'' = Some (PStr mmsi)"
    using prepare_mmsi_update_shape by blast
  with u show "\<exists>data. and_then (prepare_mmsi_update env amb mmsi vd r) (\<lambda>u. Inr (ups @ [u], ins))
                      = Inr (ups @ [DataUpdate (dget r ''name'') data], ins)
                  \<and> data ''ais_mmsi'' = Some (PStr mmsi)"
    by (simp add: and_then_def)
qed

section \<open>Insert-path IMO assignment\<close>

lemma free_imo_free: "imo \<notin> set taken \<Longrightarrow> free_imo taken base imo c = imo"
  by (simp add: free_imo.simps[of taken base imo c])

lemma free_imo_taken:
  "imo \<in> set taken \<Longrightarrow>
   free_imo taken base imo c = free_imo taken base (base @ ''-'' @ str_nat c) (c + 1)"
  by (simp add: free_imo.simps[of taken base imo c])

lemma free_imo_spec:
  "free_imo taken base imo c \<notin> set taken
   \<and> (imo \<notin> set taken \<longrightarrow> free_imo taken base imo c = imo)
   \<and> (imo \<in> set taken \<longrightarrow>
        (\<exists>k\<ge>c. free_imo taken base imo c = base @ ''-'' @ str_nat k
               \<and> (\<forall>j. c \<le> j \<and> j < k \<longrightarrow> base @ ''-'' @ str_nat j \<in> set taken)))"
proof (induction taken base imo c rule: free_imo.induct)
  case (1 taken base imo c)
  show ?case
  proof (cases "imo \<in> set taken")
    case False
    then show ?thesis by (simp add: free_imo_free)
  next
    case True
    let ?next = "base @ ''-'' @ str_nat c"
    let ?r = "free_imo taken base ?next (c + 1)"
    from 1[OF True] have IH:
      "?r \<notin> set taken
       \<and> (?next \<notin> set taken \<longrightarrow> ?r = ?next)
       \<and> (?next \<in> set taken \<longrightarrow>
            (\<exists>k\<ge>c + 1. ?r = base @ ''-'' @ str_nat k
               \<and> (\<forall>j. c + 1 \<le> j \<and> j < k \<longrightarrow> base @ ''-'' @ str_nat j \<in> set taken)))"
      .
    have eq: "free_imo taken base imo c = ?r"
      using True by (rule free_imo_taken)
    have "\<exists>k\<ge>c. ?r = base @ ''-'' @ str_nat k
               \<and> (\<forall>j. c \<le> j \<and> j < k \<longrightarrow> base @ ''-'' @ str_nat j \<in> set taken)"
    proof (cases "?next \<in> set taken")
      case False
      with IH have "?r = ?next" by simp
      then show ?thesis by (intro exI[of _ c]) auto
    next
      case nt: True
      with IH obtain k where k: "k \<ge> c + 1" "?r = base @ ''-'' @ str_nat k"
        "\<forall>j. c + 1 \<le> j \<and> j < k \<longrightarrow> base @ ''-'' @ str_nat j \<in> set taken"
        by blast
      have "\<forall>j. c \<le> j \<and> j < k \<longrightarrow> base @ ''-'' @ str_nat j \<in> set taken"
      proof (intro allI impI)
        fix j assume j: "c \<le> j \<and> j < k"
        show "base @ ''-'' @ str_nat j \<in> set taken"
        proof (cases "j = c")
          case True
          with nt show ?thesis by simp
        next
          case False
          with j have "c + 1 \<le> j \<and> j < k" by simp
          with k(3) show ?thesis by blast
        qed
      qed
      with k(1,2) show ?thesis by (intro exI[of _ k]) simp
    qed
    with IH eq True show ?thesis by simp
  qed
qed

lemma str_nat_hd: "str_nat n \<noteq> [] \<and> hd (str_nat n) \<in> set ''0123456789''"
proof (induction n rule: str_nat.induct)
  case (1 n)
  show ?case
  proof (cases "n < 10")
    case True
    then have "digit_char n \<in> set ''0123456789''"
      unfolding digit_char_def by (intro nth_mem) simp
    with True show ?thesis by (simp add: str_nat_small)
  next
    case False
    with 1 have "str_nat (n div 10) \<noteq> [] \<and> hd (str_nat (n div 10)) \<in> set ''0123456789''"
      by simp
    with False show ?thesis by (simp add: str_nat_large)
  qed
qed

lemma startswith_hd: "startswith s (c # p) \<Longrightarrow> s \<noteq> [] \<and> hd s = c"
  by (cases s) (auto simp: startswith_def)

text \<open>The string of a genuine IMO number never carries the synthetic prefix.\<close>

lemma genuine_not_synthetic:
  assumes "genuine_imo v"
  shows "\<not> startswith (py_str env v) ''AIS-''"
proof (cases v)
  case (PBool b)
  with assms show ?thesis by (simp add: genuine_imo_def startswith_def)
next
  case (PInt i)
  show ?thesis
  proof
    assume "startswith (py_str env v) ''AIS-''"
    then have h: "hd (str_int i) = CHR ''A''"
      using PInt startswith_hd by fastforce
    show False
    proof (cases "i < 0")
      case True
      with h show ?thesis by (simp add: str_int_def)
    next
      case False
      with h str_nat_hd[of "nat i"] show ?thesis by (auto simp: str_int_def)
    qed
  qed
qed (use assms in \<open>simp_all add: genuine_imo_def\<close>)

text \<open>
  C4. The IMO number of an insert: a genuine IMO number not in the registry is used as
  it is. Otherwise (it collides, or none is supplied) the number is the first of
  \<^verbatim>\<open>AIS-<mmsi>\<close>, \<^verbatim>\<open>AIS-<mmsi>-1\<close>, \<^verbatim>\<open>AIS-<mmsi>-2\<close>, ... that is not in the registry. With no
  genuine IMO number and an empty registry it is \<^verbatim>\<open>AIS-<mmsi>\<close>. The prepared insert
  carries this number in \<^verbatim>\<open>imo_number\<close>.
\<close>

theorem insert_imo_assignment:
  "(genuine_imo (dget vd ''imo_number'') \<and> py_str env (dget vd ''imo_number'') \<notin> set taken \<longrightarrow>
      insert_imo env taken mmsi vd = py_str env (dget vd ''imo_number''))
   \<and> (\<not> (genuine_imo (dget vd ''imo_number'') \<and> py_str env (dget vd ''imo_number'') \<notin> set taken) \<longrightarrow>
        insert_imo env taken mmsi vd \<notin> set taken
        \<and> (''AIS-'' @ mmsi \<notin> set taken \<longrightarrow> insert_imo env taken mmsi vd = ''AIS-'' @ mmsi)
        \<and> (''AIS-'' @ mmsi \<in> set taken \<longrightarrow>
             (\<exists>k\<ge>1. insert_imo env taken mmsi vd = (''AIS-'' @ mmsi) @ ''-'' @ str_nat k
                \<and> (\<forall>j. 1 \<le> j \<and> j < k \<longrightarrow> (''AIS-'' @ mmsi) @ ''-'' @ str_nat j \<in> set taken))))
   \<and> (\<not> genuine_imo (dget vd ''imo_number'') \<longrightarrow> insert_imo env [] mmsi vd = ''AIS-'' @ mmsi)
   \<and> (\<forall>i. prepare_vessel_insert env taken amb mmsi vd = Inr i \<longrightarrow>
         i ''imo_number'' = Some (PStr (insert_imo env taken mmsi vd)))"
proof (intro conjI impI allI)
  assume "genuine_imo (dget vd ''imo_number'') \<and> py_str env (dget vd ''imo_number'') \<notin> set taken"
  then show "insert_imo env taken mmsi vd = py_str env (dget vd ''imo_number'')"
    using genuine_not_synthetic[of "dget vd ''imo_number''" env]
    by (simp add: insert_imo_def Let_def)
next
  assume n: "\<not> (genuine_imo (dget vd ''imo_number'') \<and> py_str env (dget vd ''imo_number'') \<notin> set taken)"
  then have eq: "insert_imo env taken mmsi vd
                   = free_imo taken (''AIS-'' @ mmsi) (''AIS-'' @ mmsi) 1"
    by (auto simp: insert_imo_def Let_def startswith_def)
  show "insert_imo env taken mmsi vd \<notin> set taken"
    using free_imo_spec[of taken "''AIS-'' @ mmsi" "''AIS-'' @ mmsi" 1] by (simp add: eq)
  show "insert_imo env taken mmsi vd = ''AIS-'' @ mmsi" if "''AIS-'' @ mmsi \<notin> set taken"
    using that free_imo_spec[of taken "''AIS-'' @ mmsi" "''AIS-'' @ mmsi" 1] by (simp add: eq)
  show "\<exists>k\<ge>1. insert_imo env taken mmsi vd = (''AIS-'' @ mmsi) @ ''-'' @ str_nat k
                \<and> (\<forall>j. 1 \<le> j \<and> j < k \<longrightarrow> (''AIS-'' @ mmsi) @ ''-'' @ str_nat j \<in> set taken)"
    if "''AIS-'' @ mmsi \<in> set taken"
    using that free_imo_spec[of taken "''AIS-'' @ mmsi" "''AIS-'' @ mmsi" 1] unfolding eq by blast
next
  assume "\<not> genuine_imo (dget vd ''imo_number'')"
  then show "insert_imo env [] mmsi vd = ''AIS-'' @ mmsi"
    by (simp add: insert_imo_def Let_def startswith_def free_imo_free)
next
  fix i
  assume "prepare_vessel_insert env taken amb mmsi vd = Inr i"
  then show "i ''imo_number'' = Some (PStr (insert_imo env taken mmsi vd))"
    using prepare_vessel_insert_identity by blast
qed

section \<open>BatchExecutor: inserts\<close>

lemma insert_loop_conflicts_only:
  assumes "conflicts_only run db ops"
  shows "insert_loop run db ops skipped = Inr (attempt_all run db ops, skipped @ skipped_of run db ops)"
  using assms
proof (induction ops arbitrary: db skipped)
  case Nil
  then show ?case by simp
next
  case (Cons i rest)
  show ?case
  proof (cases "run db i")
    case (Inl e)
    with Cons.prems have "is_duplicate_imo e" and "conflicts_only run db rest" by simp_all
    with Inl Cons.IH[of db] show ?thesis by simp
  next
    case (Inr db')
    with Cons.prems have "conflicts_only run db' rest" by simp
    with Inr Cons.IH[of db'] show ?thesis by simp
  qed
qed

lemma insert_loop_fatal:
  assumes "conflicts_only run db pre"
    and "run (attempt_all run db pre) x = Inl e" and "\<not> is_duplicate_imo e"
  shows "insert_loop run db (pre @ x # post) skipped = Inl e"
  using assms
proof (induction pre arbitrary: db skipped)
  case Nil
  then show ?case by simp
next
  case (Cons i rest)
  show ?case
  proof (cases "run db i")
    case (Inl e')
    with Cons.prems(1) have "is_duplicate_imo e'" and "conflicts_only run db rest" by simp_all
    with Inl Cons.IH[of db] Cons.prems(2,3) show ?thesis by simp
  next
    case (Inr db')
    with Cons.prems(1) have "conflicts_only run db' rest" by simp
    with Inr Cons.IH[of db'] Cons.prems(2,3) show ?thesis by simp
  qed
qed

text \<open>Every group of inserts either raises nothing but conflicts, or splits at its first
  other exception.\<close>

lemma conflicts_only_or_fatal:
  "conflicts_only run db ops \<or>
   (\<exists>pre x post e. ops = pre @ x # post \<and> conflicts_only run db pre
      \<and> run (attempt_all run db pre) x = Inl e \<and> \<not> is_duplicate_imo e)"
proof (induction ops arbitrary: db)
  case Nil
  then show ?case by simp
next
  case (Cons i rest)
  show ?case
  proof (cases "run db i")
    case (Inr db')
    from Cons.IH[of db'] show ?thesis
    proof
      assume "conflicts_only run db' rest"
      with Inr show ?thesis by simp
    next
      assume "\<exists>pre x post e. rest = pre @ x # post \<and> conflicts_only run db' pre
                \<and> run (attempt_all run db' pre) x = Inl e \<and> \<not> is_duplicate_imo e"
      then obtain pre x post e where "rest = pre @ x # post" "conflicts_only run db' pre"
        "run (attempt_all run db' pre) x = Inl e" "\<not> is_duplicate_imo e"
        by blast
      with Inr have "i # rest = (i # pre) @ x # post \<and> conflicts_only run db (i # pre)
                \<and> run (attempt_all run db (i # pre)) x = Inl e \<and> \<not> is_duplicate_imo e"
        by simp
      then show ?thesis by blast
    qed
  next
    case (Inl e')
    show ?thesis
    proof (cases "is_duplicate_imo e'")
      case False
      with Inl have "i # rest = [] @ i # rest \<and> conflicts_only run db []
                \<and> run (attempt_all run db []) i = Inl e' \<and> \<not> is_duplicate_imo e'"
        by simp
      then show ?thesis by blast
    next
      case True
      from Cons.IH[of db] show ?thesis
      proof
        assume "conflicts_only run db rest"
        with Inl True show ?thesis by simp
      next
        assume "\<exists>pre x post e. rest = pre @ x # post \<and> conflicts_only run db pre
                  \<and> run (attempt_all run db pre) x = Inl e \<and> \<not> is_duplicate_imo e"
        then obtain pre x post e where "rest = pre @ x # post" "conflicts_only run db pre"
          "run (attempt_all run db pre) x = Inl e" "\<not> is_duplicate_imo e"
          by blast
        with Inl True have "i # rest = (i # pre) @ x # post \<and> conflicts_only run db (i # pre)
                  \<and> run (attempt_all run db (i # pre)) x = Inl e \<and> \<not> is_duplicate_imo e"
          by simp
        then show ?thesis by blast
      qed
    qed
  qed
qed

text \<open>
  C7. When the inserts of a group raise nothing but duplicate-IMO conflicts (the message
  of the exception holds \<^verbatim>\<open>Duplicate entry\<close> and \<^verbatim>\<open>imo_number\<close>), the call returns after the
  commit: every insert was attempted in turn, the conflicting ones are the ones skipped
  and printed. When an insert raises anything else, after inserts that at most
  conflicted, the call re-raises that exception and leaves the registry as it was when
  the call started (the rollback); the inserts after it are not run. By
  \<open>conflicts_only_or_fatal\<close> every group is of one of the two kinds.
\<close>

theorem insert_conflicts_skipped_other_errors_abort:
  assumes "conflicts_only run db pre"
  shows "execute_batch_inserts run db pre = Returned (attempt_all run db pre) (skipped_of run db pre)
       \<and> (run (attempt_all run db pre) x = Inl e \<and> \<not> is_duplicate_imo e \<longrightarrow>
            execute_batch_inserts run db (pre @ x # post) = Raised e db)"
proof -
  have "execute_batch_inserts run db pre = Returned (attempt_all run db pre) (skipped_of run db pre)"
    using insert_loop_conflicts_only[OF assms, of "[]"]
    by (cases pre) (simp_all add: execute_batch_inserts_def)
  moreover have "execute_batch_inserts run db (pre @ x # post) = Raised e db"
    if "run (attempt_all run db pre) x = Inl e" and "\<not> is_duplicate_imo e"
    using insert_loop_fatal[OF assms that, of post "[]"]
    by (simp add: execute_batch_inserts_def)
  ultimately show ?thesis by blast
qed

section \<open>Runs on the sample inputs\<close>

lemma str_int_222: "str_int 222 = ''222''"
  by (simp add: str_int_def str_nat_small str_nat_large digit_char_def)

lemma str_int_9123456: "str_int 9123456 = ''9123456''"
  by (simp add: str_int_def str_nat_small str_nat_large digit_char_def)

theorem identity_merge_bypasses_gate_witness:
  "fst (batch_item plain_builtins [''9123456''] merge_existing sample_ambient merge_update
          ([(''vessel_update_222'', 999)], [], []))
     = [(''vessel_update_222'', 999)]
   \<and> (\<exists>data. snd (batch_item plain_builtins [''9123456''] merge_existing sample_ambient merge_update
                     ([(''vessel_update_222'', 999)], [], []))
               = Inr ([DataUpdate (PStr ''V1'') data], [])
            \<and> data ''ais_mmsi'' = Some (PStr ''222''))"
proof -
  have m: "py_str plain_builtins (dget merge_update ''mmsi'') = ''222''"
    by (simp add: merge_update_def dget_def str_int_222)
  have ne: "''222'' \<noteq> []" by simp
  have nomatch: "merge_existing (PStr ''222'') = None"
    by (simp add: merge_existing_def)
  have gen: "genuine_imo (dget merge_update ''imo_number'')"
    by (simp add: merge_update_def dget_def genuine_imo_def)
  have byimo: "merge_existing (PStr (''IMO-'' @ py_str plain_builtins (dget merge_update ''imo_number'')))
                 = Some merge_record"
    by (simp add: merge_existing_def merge_update_def dget_def str_int_9123456)
  have conv: "floats_convert plain_builtins merge_update"
    by (simp add: floats_convert_def converts_def merge_update_def dget_def)
  have amb: "sample_ambient\<lparr>clock := 1000\<rparr> = sample_ambient"
    by (simp add: sample_ambient_def)
  have nm: "dget merge_record ''name'' = PStr ''V1''"
    by (simp add: merge_record_def dget_def)
  note inst = identity_merge_bypasses_gate[OF m ne nomatch gen byimo,
      of "[''9123456'']" sample_ambient "[]" "[]"]
  note run = inst[THEN conjunct1, rule_format, of 1000 "[(''vessel_update_222'', 999)]"]
  from inst[THEN conjunct2, rule_format, OF conv] obtain data where
    d: "and_then (prepare_mmsi_update plain_builtins sample_ambient ''222'' merge_update merge_record)
          (\<lambda>u. Inr ([] @ [u], [] :: insert_op list))
        = Inr ([] @ [DataUpdate (dget merge_record ''name'') data], [])"
    and mm: "data ''ais_mmsi'' = Some (PStr ''222'')"
    by blast
  from run d have "batch_item plain_builtins [''9123456''] merge_existing sample_ambient merge_update
          ([(''vessel_update_222'', 999)], [], [])
        = ([(''vessel_update_222'', 999)], Inr ([DataUpdate (PStr ''V1'') data], []))"
    by (simp add: amb nm)
  with mm show ?thesis by simp
qed

lemma duplicate_message: "is_duplicate_imo ''Duplicate entry for key imo_number''"
  by (simp add: is_duplicate_imo_def startswith_def)

lemma null_message: "\<not> is_duplicate_imo ''Column name cannot be null''"
  by (simp add: is_duplicate_imo_def startswith_def)

theorem insert_conflicts_witness:
  "execute_batch_inserts unique_insert [merge_record]
     [sample_insert ''h1'' ''AIS-333'' ''333'', sample_insert ''h2'' ''9123456'' ''444'',
      sample_insert ''h3'' ''AIS-555'' ''555'']
     = Returned [merge_record, sample_insert ''h1'' ''AIS-333'' ''333'',
                 sample_insert ''h3'' ''AIS-555'' ''555''] [PStr ''444'']
   \<and> execute_batch_inserts unique_insert [merge_record]
     ([sample_insert ''h1'' ''AIS-333'' ''333'', sample_insert ''h2'' ''9123456'' ''444'',
       sample_insert ''h3'' ''AIS-555'' ''555'']
      @ nameless_insert ''AIS-666'' ''666'' # [sample_insert ''h4'' ''AIS-777'' ''777''])
     = Raised ''Column name cannot be null'' [merge_record]"
proof -
  let ?pre = "[sample_insert ''h1'' ''AIS-333'' ''333'', sample_insert ''h2'' ''9123456'' ''444'',
      sample_insert ''h3'' ''AIS-555'' ''555'']"
  have r1: "unique_insert [merge_record] (sample_insert ''h1'' ''AIS-333'' ''333'')
              = Inr [merge_record, sample_insert ''h1'' ''AIS-333'' ''333'']"
    by (simp add: unique_insert_def sample_insert_def merge_record_def dget_def)
  have r2: "unique_insert [merge_record, sample_insert ''h1'' ''AIS-333'' ''333'']
              (sample_insert ''h2'' ''9123456'' ''444'')
              = Inl ''Duplicate entry for key imo_number''"
    by (simp add: unique_insert_def sample_insert_def merge_record_def dget_def)
  have r3: "unique_insert [merge_record, sample_insert ''h1'' ''AIS-333'' ''333'']
              (sample_insert ''h3'' ''AIS-555'' ''555'')
              = Inr [merge_record, sample_insert ''h1'' ''AIS-333'' ''333'',
                     sample_insert ''h3'' ''AIS-555'' ''555'']"
    by (simp add: unique_insert_def sample_insert_def merge_record_def dget_def)
  have r4: "unique_insert [merge_record, sample_insert ''h1'' ''AIS-333'' ''333'',
                     sample_insert ''h3'' ''AIS-555'' ''555'']
              (nameless_insert ''AIS-666'' ''666'') = Inl ''Column name cannot be null''"
    by (simp add: unique_insert_def nameless_insert_def dget_def)
  have all: "attempt_all unique_insert [merge_record] ?pre
               = [merge_record, sample_insert ''h1'' ''AIS-333'' ''333'',
                  sample_insert ''h3'' ''AIS-555'' ''555'']"
    by (simp add: r1 r2 r3)
  have only: "conflicts_only unique_insert [merge_record] ?pre"
    by (simp add: r1 r2 r3 duplicate_message)
  have sk: "skipped_of unique_insert [merge_record] ?pre = [PStr ''444'']"
    by (simp add: r1 r2 r3) (simp add: sample_insert_def dget_def)
  note inst = insert_conflicts_skipped_other_errors_abort[OF only,
      of "nameless_insert ''AIS-666'' ''666''" "''Column name cannot be null''"
         "[sample_insert ''h4'' ''AIS-777'' ''777'']"]
  note inst' = inst[unfolded all sk]
  from inst' r4 null_message show ?thesis
    by simp
qed

lemma str_nat_1: "str_nat (Suc 0) = ''1''"
  by (simp add: str_nat_small digit_char_def)

lemma str_nat_2: "str_nat (Suc (Suc 0)) = ''2''"
  by (simp add: str_nat_small digit_char_def)

theorem insert_imo_assignment_witness:
  "insert_imo plain_builtins [] ''403456789'' [''mmsi'' \<mapsto> PInt 403456789] = ''AIS-403456789''
   \<and> insert_imo plain_builtins [''1234567''] ''999'' collide_update = ''9123456''
   \<and> insert_imo plain_builtins [''9123456''] ''999'' collide_update = ''AIS-999''
   \<and> insert_imo plain_builtins [''9123456'', ''AIS-999'', ''AIS-999-1''] ''999'' collide_update
       = ''AIS-999-2''"
proof -
  have g: "genuine_imo (dget collide_update ''imo_number'')"
    by (simp add: collide_update_def dget_def genuine_imo_def)
  have s: "py_str plain_builtins (dget collide_update ''imo_number'') = ''9123456''"
    by (simp add: collide_update_def dget_def str_int_9123456)
  have ng: "\<not> genuine_imo (dget [''mmsi'' \<mapsto> PInt 403456789] ''imo_number'')"
    by (simp add: dget_def genuine_imo_def)
  have a: "insert_imo plain_builtins [] ''403456789'' [''mmsi'' \<mapsto> PInt 403456789] = ''AIS-403456789''"
    using insert_imo_assignment[of "[''mmsi'' \<mapsto> PInt 403456789]" plain_builtins "[]"
        "''403456789''" sample_ambient] ng
    by simp
  have b: "insert_imo plain_builtins [''1234567''] ''999'' collide_update = ''9123456''"
    using insert_imo_assignment[of collide_update plain_builtins "[''1234567'']" "''999''"
        sample_ambient] g s
    by simp
  have c: "insert_imo plain_builtins [''9123456''] ''999'' collide_update = ''AIS-999''"
    using insert_imo_assignment[of collide_update plain_builtins "[''9123456'']" "''999''"
        sample_ambient] g s
    by simp
  have d: "insert_imo plain_builtins [''9123456'', ''AIS-999'', ''AIS-999-1''] ''999'' collide_update
       = ''AIS-999-2''"
    using g s
    by (simp add: insert_imo_def Let_def startswith_def free_imo_taken free_imo_free
        str_nat_1 str_nat_2)
  from a b c d show ?thesis by simp
qed

theorem enqueue_overwrites_witness:
  "pending_field (update_queue (fst (snd (process_ais_message plain_builtins 2 report_sample pending_sample))))
     ''403456789'' ''speed'' = Some PNone
   \<and> pending_field (update_queue (fst (snd (process_ais_message plain_builtins 2 report_sample pending_sample))))
     ''403456789'' ''destination'' = Some (PStr ''JEDDAH'')
   \<and> pending_field (update_queue (fst (snd (process_ais_message plain_builtins 2 report_sample pending_sample))))
     ''403456789'' ''latitude'' = Some (PFloat 21.5)"
proof -
  let ?vd = "[''mmsi'' \<mapsto> PInt 403456789, ''latitude'' \<mapsto> PFloat 21.5,
              ''longitude'' \<mapsto> PFloat 39.2, ''speed'' \<mapsto> PNone, ''course'' \<mapsto> PNone,
              ''status'' \<mapsto> PStr ''Default'', ''vessel_name'' \<mapsto> PNone]"
  have b: "build_vessel_data report_sample = Inr ?vd"
    by (simp add: build_vessel_data_def report_sample_def position_frame_def py_or_def dget_def
        dget_or_def get_navigation_status_def)
  have t: "truthy (dget ?vd ''mmsi'')"
    by (simp add: dget_def)
  have s: "py_str plain_builtins (dget ?vd ''mmsi'') = ''403456789''"
    by (simp add: dget_def str_int_403456789)
  have nf: "\<not> (2 - last_batch_time pending_sample > 10
              \<or> length (enqueue ''403456789'' ?vd (update_queue pending_sample)) \<ge> 50)"
    by (simp add: pending_sample_def enqueue_def)
  note inst = enqueue_overwrites_named_fields[OF b t s, of 2 pending_sample]
  from inst nf have st: "process_ais_message plain_builtins 2 report_sample pending_sample
      = (Success, pending_sample\<lparr>update_queue := enqueue ''403456789'' ?vd (update_queue pending_sample)\<rparr>, None)"
    by (simp only: if_False simp_thms)
  from inst have fld: "\<forall>k. pending_field (enqueue ''403456789'' ?vd (update_queue pending_sample)) ''403456789'' k
              = (case ?vd k of Some v \<Rightarrow> Some v
                 | None \<Rightarrow> pending_field (update_queue pending_sample) ''403456789'' k)"
    by (elim conjE)
  let ?q = "enqueue ''403456789'' ?vd (update_queue pending_sample)"
  have q: "update_queue (fst (snd (process_ais_message plain_builtins 2 report_sample pending_sample))) = ?q"
    by (simp add: st)
  have old: "pending_field (update_queue pending_sample) ''403456789'' ''destination''
               = Some (PStr ''JEDDAH'')"
    by (simp add: pending_field_def pending_sample_def)
  have f1: "pending_field ?q ''403456789'' ''speed'' = Some PNone"
    using fld[rule_format, of "''speed''"] by simp
  have f2: "pending_field ?q ''403456789'' ''destination'' = Some (PStr ''JEDDAH'')"
    using fld[rule_format, of "''destination''"] old by simp
  have f3: "pending_field ?q ''403456789'' ''latitude'' = Some (PFloat 21.5)"
    using fld[rule_format, of "''latitude''"] by simp
  show ?thesis
    unfolding q using f1 f2 f3 by blast
qed

section \<open>Vessel names\<close>

text \<open>The name of a new vessel is the trimmed name cut to 140 characters.\<close>

lemma insert_name_capped:
  assumes "dget vd ''vessel_name'' = PStr s" and "strip s \<noteq> []"
  shows "insert_name mmsi vd = Inr (take 140 (strip s))"
proof -
  from assms(2) have "s \<noteq> []" by (auto simp: strip_def)
  with assms show ?thesis
    by (auto simp: insert_name_def Let_def and_then_def py_or_def dget_def dget_or_def
        split: option.splits)
qed

text \<open>The identity merge stores the trimmed name cut to 250 characters.\<close>

lemma merge_name_written:
  assumes "dget vd ''vessel_name'' = PStr s" and "strip s \<noteq> []"
    and "PStr (take 250 (strip s)) \<noteq> dget er ''vessel_name''"
  shows "merge_name env vd er d ''vessel_name'' = Some (PStr (take 250 (strip s)))"
proof -
  from assms(2) have "s \<noteq> []" by (auto simp: strip_def)
  with assms show ?thesis
    by (simp add: merge_name_def Let_def)
qed

lemma strip_long_name: "strip long_name = long_name"
  by (simp add: strip_def long_name_def py_isspace_def)

text \<open>
  C8, at the input where the code departs from it. \<^verbatim>\<open>prepare_vessel_update\<close> and
  \<^verbatim>\<open>prepare_vessel_insert\<close> cut the trimmed name to 140 characters
  (\<open>prepare_vessel_update_name\<close>, \<open>insert_name_capped\<close>); \<^verbatim>\<open>prepare_mmsi_update\<close> cuts it
  to 250: for the identity merge of the sample update carrying a name of 200 characters,
  all 200 are stored.
\<close>

theorem merge_name_exceeds_cap:
  "(case prepare_mmsi_update plain_builtins sample_ambient ''222''
           (merge_update(''vessel_name'' \<mapsto> PStr long_name)) merge_record of
      Inl e \<Rightarrow> False
    | Inr (SqlUpdate cl vals) \<Rightarrow> False
    | Inr (DataUpdate nm data) \<Rightarrow> data ''vessel_name'' = Some (PStr long_name))
   \<and> length long_name = 200"
proof -
  have differs: "long_name \<noteq> ''OLD NAME''"
  proof
    assume "long_name = ''OLD NAME''"
    then have "length long_name = length ''OLD NAME''" by (rule arg_cong)
    then show False by (simp add: long_name_def)
  qed
  have "take 250 long_name = long_name" and "long_name \<noteq> []"
    by (simp_all add: long_name_def)
  then have nm: "merge_name plain_builtins (merge_update(''vessel_name'' \<mapsto> PStr long_name)) merge_record d
              = d(''vessel_name'' \<mapsto> PStr long_name)" for d
    using differs
    by (simp add: merge_name_def Let_def dget_def strip_long_name merge_record_def)
  show ?thesis
    unfolding prepare_mmsi_update_def nm
    by (simp add: and_then_def ins_float_def ins_status_def
        ins_destination_def merge_update_def dget_def Let_def)
       (simp add: long_name_def)
qed

section \<open>Coordinates equal to zero\<close>

lemma build_position_report:
  assumes "message_type m = PStr ''PositionReport''"
  shows "\<exists>vd. build_vessel_data m = Inr vd
           \<and> vd ''latitude'' = Some (py_or (dget (position_report m) ''Latitude'')
                                          (dget (meta_data m) ''latitude''))
           \<and> vd ''longitude'' = Some (py_or (dget (position_report m) ''Longitude'')
                                           (dget (meta_data m) ''longitude''))"
  using assms by (simp add: build_vessel_data_def Let_def)

text \<open>
  C10. A \<^verbatim>\<open>PositionReport\<close> whose \<^verbatim>\<open>Latitude\<close> (or \<^verbatim>\<open>Longitude\<close>) is the integer or the float 0
  is normalised with the coordinate of \<^verbatim>\<open>MetaData\<close> in its place. An update whose
  \<^verbatim>\<open>latitude\<close> (or \<^verbatim>\<open>longitude\<close>) is 0 has that coordinate left out of the operation
  prepared from it, whether SQL update, insert or identity merge.
\<close>

theorem zero_coordinate_treated_as_absent:
  "(message_type m = PStr ''PositionReport'' \<longrightarrow>
      (\<exists>vd. build_vessel_data m = Inr vd
         \<and> (dget (position_report m) ''Latitude'' \<in> {PInt 0, PFloat 0} \<longrightarrow>
              vd ''latitude'' = Some (dget (meta_data m) ''latitude''))
         \<and> (dget (position_report m) ''Longitude'' \<in> {PInt 0, PFloat 0} \<longrightarrow>
              vd ''longitude'' = Some (dget (meta_data m) ''longitude''))))
   \<and> (dget u ''latitude'' \<in> {PInt 0, PFloat 0} \<longrightarrow>
        (\<forall>cl vals. prepare_vessel_update env amb mmsi u er = Inr (SqlUpdate cl vals) \<longrightarrow>
            vals ''latitude'' = None \<and> ''ais_last_position_lat'' \<notin> fst ` set cl)
        \<and> (\<forall>i. prepare_vessel_insert env taken amb mmsi u = Inr i \<longrightarrow>
              i ''ais_last_position_lat'' = None)
        \<and> (\<forall>nm data. prepare_mmsi_update env amb mmsi u er = Inr (DataUpdate nm data) \<longrightarrow>
              data ''ais_last_position_lat'' = None))
   \<and> (dget u ''longitude'' \<in> {PInt 0, PFloat 0} \<longrightarrow>
        (\<forall>cl vals. prepare_vessel_update env amb mmsi u er = Inr (SqlUpdate cl vals) \<longrightarrow>
            vals ''longitude'' = None \<and> ''ais_last_position_lon'' \<notin> fst ` set cl)
        \<and> (\<forall>i. prepare_vessel_insert env taken amb mmsi u = Inr i \<longrightarrow>
              i ''ais_last_position_lon'' = None)
        \<and> (\<forall>nm data. prepare_mmsi_update env amb mmsi u er = Inr (DataUpdate nm data) \<longrightarrow>
              data ''ais_last_position_lon'' = None))"
proof (intro conjI)
  show "message_type m = PStr ''PositionReport'' \<longrightarrow>
      (\<exists>vd. build_vessel_data m = Inr vd
         \<and> (dget (position_report m) ''Latitude'' \<in> {PInt 0, PFloat 0} \<longrightarrow>
              vd ''latitude'' = Some (dget (meta_data m) ''latitude''))
         \<and> (dget (position_report m) ''Longitude'' \<in> {PInt 0, PFloat 0} \<longrightarrow>
              vd ''longitude'' = Some (dget (meta_data m) ''longitude'')))"
  proof
    assume "message_type m = PStr ''PositionReport''"
    then obtain vd where "build_vessel_data m = Inr vd"
      and "vd ''latitude'' = Some (py_or (dget (position_report m) ''Latitude'')
                                          (dget (meta_data m) ''latitude''))"
      and "vd ''longitude'' = Some (py_or (dget (position_report m) ''Longitude'')
                                           (dget (meta_data m) ''longitude''))"
      using build_position_report by blast
    then show "\<exists>vd. build_vessel_data m = Inr vd
         \<and> (dget (position_report m) ''Latitude'' \<in> {PInt 0, PFloat 0} \<longrightarrow>
              vd ''latitude'' = Some (dget (meta_data m) ''latitude''))
         \<and> (dget (position_report m) ''Longitude'' \<in> {PInt 0, PFloat 0} \<longrightarrow>
              vd ''longitude'' = Some (dget (meta_data m) ''longitude''))"
      by (auto simp: py_or_def)
  qed
next
  show "dget u ''latitude'' \<in> {PInt 0, PFloat 0} \<longrightarrow>
        (\<forall>cl vals. prepare_vessel_update env amb mmsi u er = Inr (SqlUpdate cl vals) \<longrightarrow>
            vals ''latitude'' = None \<and> ''ais_last_position_lat'' \<notin> fst ` set cl)
        \<and> (\<forall>i. prepare_vessel_insert env taken amb mmsi u = Inr i \<longrightarrow>
              i ''ais_last_position_lat'' = None)
        \<and> (\<forall>nm data. prepare_mmsi_update env amb mmsi u er = Inr (DataUpdate nm data) \<longrightarrow>
              data ''ais_last_position_lat'' = None)"
  proof
    assume "dget u ''latitude'' \<in> {PInt 0, PFloat 0}"
    then have z: "\<not> truthy (dget u ''latitude'')" by auto
    show "(\<forall>cl vals. prepare_vessel_update env amb mmsi u er = Inr (SqlUpdate cl vals) \<longrightarrow>
            vals ''latitude'' = None \<and> ''ais_last_position_lat'' \<notin> fst ` set cl)
        \<and> (\<forall>i. prepare_vessel_insert env taken amb mmsi u = Inr i \<longrightarrow>
              i ''ais_last_position_lat'' = None)
        \<and> (\<forall>nm data. prepare_mmsi_update env amb mmsi u er = Inr (DataUpdate nm data) \<longrightarrow>
              data ''ais_last_position_lat'' = None)"
      using z prepare_vessel_update_omits[of env amb mmsi u er]
        prepare_vessel_insert_omits[of env taken amb mmsi u]
        prepare_mmsi_update_omits[of env amb mmsi u er]
      by blast
  qed
next
  show "dget u ''longitude'' \<in> {PInt 0, PFloat 0} \<longrightarrow>
        (\<forall>cl vals. prepare_vessel_update env amb mmsi u er = Inr (SqlUpdate cl vals) \<longrightarrow>
            vals ''longitude'' = None \<and> ''ais_last_position_lon'' \<notin> fst ` set cl)
        \<and> (\<forall>i. prepare_vessel_insert env taken amb mmsi u = Inr i \<longrightarrow>
              i ''ais_last_position_lon'' = None)
        \<and> (\<forall>nm data. prepare_mmsi_update env amb mmsi u er = Inr (DataUpdate nm data) \<longrightarrow>
              data ''ais_last_position_lon'' = None)"
  proof
    assume "dget u ''longitude'' \<in> {PInt 0, PFloat 0}"
    then have z: "\<not> truthy (dget u ''longitude'')" by auto
    show "(\<forall>cl vals. prepare_vessel_update env amb mmsi u er = Inr (SqlUpdate cl vals) \<longrightarrow>
            vals ''longitude'' = None \<and> ''ais_last_position_lon'' \<notin> fst ` set cl)
        \<and> (\<forall>i. prepare_vessel_insert env taken amb mmsi u = Inr i \<longrightarrow>
              i ''ais_last_position_lon'' = None)
        \<and> (\<forall>nm data. prepare_mmsi_update env amb mmsi u er = Inr (DataUpdate nm data) \<longrightarrow>
              data ''ais_last_position_lon'' = None)"
      using z prepare_vessel_update_omits[of env amb mmsi u er]
        prepare_vessel_insert_omits[of env taken amb mmsi u]
        prepare_mmsi_update_omits[of env amb mmsi u er]
      by blast
  qed
qed

lemma prepare_insert_equator:
  "\<exists>i. prepare_vessel_insert plain_builtins [] sample_ambient ''403456789'' equator_update = Inr i
       \<and> i ''ais_last_position_lon'' = Some (PFloat 39.2)"
  by (simp add: prepare_vessel_insert_def and_then_def insert_name_def ins_float_def
      ins_status_def ins_destination_def equator_update_def dget_def dget_or_def py_or_def Let_def)

theorem zero_coordinate_witness:
  "(\<exists>vd. build_vessel_data equator_frame = Inr vd \<and> vd ''latitude'' = Some (PFloat 21.5))
   \<and> (\<exists>i. prepare_vessel_insert plain_builtins [] sample_ambient ''403456789'' equator_update = Inr i
          \<and> i ''ais_last_position_lat'' = None
          \<and> i ''ais_last_position_lon'' = Some (PFloat 39.2))"
proof -
  note inst = zero_coordinate_treated_as_absent[of equator_frame equator_update plain_builtins
      sample_ambient "''403456789''" merge_record "[]"]
  have mt: "message_type equator_frame = PStr ''PositionReport''"
    by (simp add: equator_frame_def)
  have zl: "dget (position_report equator_frame) ''Latitude'' \<in> {PInt 0, PFloat 0}"
    by (simp add: equator_frame_def dget_def)
  have ml: "dget (meta_data equator_frame) ''latitude'' = PFloat 21.5"
    by (simp add: equator_frame_def dget_def)
  have zu: "dget equator_update ''latitude'' \<in> {PInt 0, PFloat 0}"
    by (simp add: equator_update_def dget_def)
  from inst[THEN conjunct1, rule_format, OF mt] zl ml
  have a: "\<exists>vd. build_vessel_data equator_frame = Inr vd \<and> vd ''latitude'' = Some (PFloat 21.5)"
    by auto
  from prepare_insert_equator obtain i where
    i: "prepare_vessel_insert plain_builtins [] sample_ambient ''403456789'' equator_update = Inr i"
    and lon: "i ''ais_last_position_lon'' = Some (PFloat 39.2)"
    by blast
  from inst[THEN conjunct2, THEN conjunct1, rule_format, OF zu] i
  have "i ''ais_last_position_lat'' = None"
    by blast
  with a i lon show ?thesis by blast
qed

section \<open>The registry behind \<^verbatim>\<open>existing_vessels\<close>\<close>













section \<open>IdentityResolver: precedence on the registry\<close>














text \<open>
  Why the mmsi must not begin with \<^verbatim>\<open>IMO-\<close>: the index keeps the rows found by mmsi and
  the rows found by IMO number in one dictionary, the latter under \<^verbatim>\<open>IMO-<number>\<close>. A row
  whose \<^verbatim>\<open>ais_mmsi\<close> is the string \<^verbatim>\<open>IMO-9123456\<close> and whose IMO number is 7654321, fetched
  for an update of the batch with that mmsi, is found under the IMO key of another
  update of the batch with IMO number 9123456, which is then merged into it.
\<close>

lemma index_key_collision:
  "dget prefixed_record ''imo_number'' = PStr ''7654321''
   \<and> py_str plain_builtins (dget merge_update ''imo_number'') = ''9123456''
   \<and> (\<exists>ev. index_existing
              (select_existing [prefixed_record]
                 (mmsi_list plain_builtins [prefixed_update, merge_update])
                 (imo_numbers plain_builtins [prefixed_update, merge_update])) Map.empty = Inr ev
          \<and> batch_item plain_builtins [''7654321''] ev sample_ambient merge_update ([], [], [])
              = ([], and_then (prepare_mmsi_update plain_builtins sample_ambient ''222'' merge_update
                                 (selected_columns prefixed_record))
                       (\<lambda>u. Inr ([u], []))))"
proof -
  have ml: "mmsi_list plain_builtins [prefixed_update, merge_update] = [''IMO-9123456'', ''222'']"
    by (simp add: mmsi_list_def prefixed_update_def merge_update_def dget_def str_int_222)
  have il: "imo_numbers plain_builtins [prefixed_update, merge_update] = [''9123456'']"
    by (simp add: imo_numbers_def prefixed_update_def merge_update_def dget_def str_int_9123456
        genuine_imo_def)
  have sel: "select_existing [prefixed_record] [''IMO-9123456'', ''222''] [''9123456'']
               = [selected_columns prefixed_record]"
    by (simp add: select_existing_def prefixed_record_def dget_def)
  have idx: "index_existing [selected_columns prefixed_record] Map.empty
               = Inr [PStr ''IMO-9123456'' \<mapsto> selected_columns prefixed_record,
                      PStr ''IMO-7654321'' \<mapsto> selected_columns prefixed_record]"
    by (simp add: selected_columns_def prefixed_record_def dget_def startswith_def Let_def)
  have m: "py_str plain_builtins (dget merge_update ''mmsi'') = ''222''"
    by (simp add: merge_update_def dget_def str_int_222)
  have i: "py_str plain_builtins (dget merge_update ''imo_number'') = ''9123456''"
    by (simp add: merge_update_def dget_def str_int_9123456)
  have g: "genuine_imo (dget merge_update ''imo_number'')"
    by (simp add: merge_update_def dget_def genuine_imo_def)
  have ne: "''222'' \<noteq> []" by simp
  let ?ev = "[PStr ''IMO-9123456'' \<mapsto> selected_columns prefixed_record,
              PStr ''IMO-7654321'' \<mapsto> selected_columns prefixed_record]"
  have none: "?ev (PStr ''222'') = None" by simp
  have found: "?ev (PStr (''IMO-'' @ py_str plain_builtins (dget merge_update ''imo_number'')))
                 = Some (selected_columns prefixed_record)"
    by (simp add: i)
  have item: "batch_item plain_builtins [''7654321''] ?ev sample_ambient merge_update ([], [], [])
              = ([], and_then (prepare_mmsi_update plain_builtins sample_ambient ''222'' merge_update
                                 (selected_columns prefixed_record))
                       (\<lambda>u. Inr ([] @ [u], [])))"
    using m ne none g found by (rule batch_item_merge)
  have r: "dget prefixed_record ''imo_number'' = PStr ''7654321''"
    by (simp add: prefixed_record_def dget_def)
  from item have item': "batch_item plain_builtins [''7654321''] ?ev sample_ambient merge_update ([], [], [])
              = ([], and_then (prepare_mmsi_update plain_builtins sample_ambient ''222'' merge_update
                                 (selected_columns prefixed_record))
                       (\<lambda>u. Inr ([u], [])))"
    by simp
  have "index_existing
              (select_existing [prefixed_record]
                 (mmsi_list plain_builtins [prefixed_update, merge_update])
                 (imo_numbers plain_builtins [prefixed_update, merge_update])) Map.empty = Inr ?ev"
    unfolding ml il sel by (rule idx)
  with item' r i show ?thesis by blast
qed


text \<open>
  The identity-merge scenario of the specification, run through the whole of
  \<^verbatim>\<open>update_vessel_ais_batch\<close> on the sample registry: the registry holds one row with IMO
  number 9123456 and mmsi 111, the batch one update with mmsi 222 and that IMO number.
  The batch succeeds with one operation, and the row, still the only one and with its
  \<^verbatim>\<open>name\<close> and IMO number, has the mmsi 222; nothing is written to the cache.
\<close>

theorem identity_merge_end_to_end:
  "(case update_vessel_ais_batch plain_builtins list_store [(sample_ambient, merge_update)]
           [merge_record] [] of
      (BatchSuccess n, [row], cache) \<Rightarrow>
        n = 1 \<and> dget row ''ais_mmsi'' = PStr ''222'' \<and> dget row ''name'' = PStr ''V1''
        \<and> dget row ''imo_number'' = PStr ''9123456'' \<and> cache = []
    | _ \<Rightarrow> False)"
proof -
  have sel: "select_existing [merge_record] [''222''] [''9123456''] = [selected_columns merge_record]"
    by (simp add: select_existing_def merge_record_def dget_def)
  have ml: "mmsi_list plain_builtins [merge_update] = [''222'']"
    by (simp add: mmsi_list_def merge_update_def dget_def str_int_222)
  have il: "imo_numbers plain_builtins [merge_update] = [''9123456'']"
    by (simp add: imo_numbers_def merge_update_def dget_def str_int_9123456 genuine_imo_def)
  have idx: "index_existing [selected_columns merge_record] Map.empty
               = Inr [PStr ''111'' \<mapsto> selected_columns merge_record,
                      PStr ''IMO-9123456'' \<mapsto> selected_columns merge_record]"
    by (simp add: selected_columns_def merge_record_def dget_def startswith_def Let_def)
  have loop: "batch_loop plain_builtins (imo_column [merge_record])
                 [PStr ''111'' \<mapsto> selected_columns merge_record,
                  PStr ''IMO-9123456'' \<mapsto> selected_columns merge_record]
                 [(sample_ambient, merge_update)] ([], [], [])
              = ([], and_then (prepare_mmsi_update plain_builtins sample_ambient ''222'' merge_update
                                 (selected_columns merge_record))
                       (\<lambda>u. Inr ([u], [])))"
    by (simp add: batch_item_def Let_def merge_update_def dget_def str_int_222 str_int_9123456
        genuine_imo_def and_then_def split: sum.splits)
  have prep: "\<exists>data. prepare_mmsi_update plain_builtins sample_ambient ''222'' merge_update
                        (selected_columns merge_record) = Inr (DataUpdate (PStr ''V1'') data)
                \<and> data ''ais_mmsi'' = Some (PStr ''222'') \<and> data ''name'' = None
                \<and> data ''imo_number'' = None"
    by (simp add: prepare_mmsi_update_def and_then_def ins_float_def ins_status_def
        ins_destination_def merge_name_def merge_update_def selected_columns_def merge_record_def
        dget_def Let_def)
  then obtain data where
    p: "prepare_mmsi_update plain_builtins sample_ambient ''222'' merge_update
          (selected_columns merge_record) = Inr (DataUpdate (PStr ''V1'') data)"
    and mm: "data ''ais_mmsi'' = Some (PStr ''222'')" and nn: "data ''name'' = None"
    and ii: "data ''imo_number'' = None"
    by blast
  have nm: "dget merge_record ''name'' = PStr ''V1''"
    and im: "merge_record ''imo_number'' = Some (PStr ''9123456'')"
    and nn': "merge_record ''name'' = Some (PStr ''V1'')"
    by (simp_all add: merge_record_def dget_def)
  have "update_vessel_ais_batch plain_builtins list_store [(sample_ambient, merge_update)]
           [merge_record] []
          = (BatchSuccess 1, [merge_record ++ data], [])"
    by (simp add: update_vessel_ais_batch_def list_store_def ml il sel idx loop p and_then_def
        execute_batch_updates_def execute_batch_inserts_def set_value_def nm
        del: index_existing.simps batch_loop.simps)
  then show ?thesis
    by (simp add: dget_def map_add_def mm nn ii im nn')
qed

section \<open>Further properties of the gate and the normaliser\<close>

lemma evict_small: "length cache \<le> MAX_CACHE_SIZE \<Longrightarrow> evict cache = cache"
  by (simp add: evict_def)

text \<open>
  The window of the gate. For a vessel with an existing record whose last accepted write
  is recorded at \<open>t\<close>, in a cache within its ceiling: a call less than 30 seconds after
  \<open>t\<close> is rejected and leaves the cache as it was; a call more than 300 seconds after
  \<open>t\<close> is accepted whatever the position and records its time; in between the call is
  accepted exactly when the position changed.
\<close>

theorem gate_window:
  assumes "length cache \<le> MAX_CACHE_SIZE"
    and "map_of cache (''vessel_update_'' @ mmsi) = Some t" and "t \<noteq> 0"
  shows "(now - t < 30 \<longrightarrow> should_update_vessel env now mmsi nd (Some er) cache = (False, cache))
       \<and> (now - t > 300 \<longrightarrow>
            fst (should_update_vessel env now mmsi nd (Some er) cache)
            \<and> map_of (snd (should_update_vessel env now mmsi nd (Some er) cache))
                (''vessel_update_'' @ mmsi) = Some now)
       \<and> (30 \<le> now - t \<and> now - t \<le> 300 \<longrightarrow>
            fst (should_update_vessel env now mmsi nd (Some er) cache) = position_changed env nd er)"
  using assms
  by (simp add: should_update_vessel_def Let_def evict_small rate_limited_def refresh_due_def
      update_conv')

theorem gate_window_witness:
  "should_update_vessel plain_builtins 110 ''111'' known_update
     (Some (merge_record(''ais_last_position_lat'' \<mapsto> PFloat 21.5, ''ais_last_position_lon'' \<mapsto> PFloat 39.2)))
     [(''vessel_update_111'', 100)]
     = (False, [(''vessel_update_111'', 100)])
   \<and> fst (should_update_vessel plain_builtins 401 ''111'' known_update
     (Some (merge_record(''ais_last_position_lat'' \<mapsto> PFloat 21.5, ''ais_last_position_lon'' \<mapsto> PFloat 39.2)))
     [(''vessel_update_111'', 100)])
   \<and> \<not> fst (should_update_vessel plain_builtins 200 ''111'' known_update
     (Some (merge_record(''ais_last_position_lat'' \<mapsto> PFloat 21.5, ''ais_last_position_lon'' \<mapsto> PFloat 39.2)))
     [(''vessel_update_111'', 100)])"
proof -
  let ?er = "merge_record(''ais_last_position_lat'' \<mapsto> PFloat 21.5, ''ais_last_position_lon'' \<mapsto> PFloat 39.2)"
  have small: "length [(''vessel_update_111'', 100 :: real)] \<le> MAX_CACHE_SIZE"
    by (simp add: MAX_CACHE_SIZE_def)
  have stored: "map_of [(''vessel_update_111'', 100 :: real)] (''vessel_update_'' @ ''111'') = Some 100"
    by simp
  have nz: "(100 :: real) \<noteq> 0" by simp
  have same: "\<not> position_changed plain_builtins known_update ?er"
    by (simp add: position_changed_def known_update_def dget_def dget_or_def)
  note w = gate_window[OF small stored nz, of _ plain_builtins known_update ?er]
  from w[of 110] have a: "should_update_vessel plain_builtins 110 ''111'' known_update (Some ?er)
     [(''vessel_update_111'', 100)] = (False, [(''vessel_update_111'', 100)])"
    by simp
  from w[of 401] have b: "fst (should_update_vessel plain_builtins 401 ''111'' known_update (Some ?er)
     [(''vessel_update_111'', 100)])"
    by simp
  from w[of 200] same have c: "\<not> fst (should_update_vessel plain_builtins 200 ''111'' known_update (Some ?er)
     [(''vessel_update_111'', 100)])"
    by simp
  from a b c show ?thesis by blast
qed

text \<open>
  The frame of the specification's round trip, a \<^verbatim>\<open>PositionReport\<close> of user 403456789 at
  21.5, 39.2 with \<^verbatim>\<open>Sog\<close> 12.5, \<^verbatim>\<open>Cog\<close> 45 and navigational status 0, is normalised to the
  mmsi 403456789, the status of a vessel under way using its engine and the speed 12.5;
  the name, for which the frame has nothing, is present as \<^verbatim>\<open>None\<close>.
\<close>

theorem position_report_normalised:
  "(case build_vessel_data underway_frame of
      Inl e \<Rightarrow> False
    | Inr vd \<Rightarrow> py_str plain_builtins (dget vd ''mmsi'') = ''403456789''
               \<and> vd ''status'' = Some (PStr ''Under way using engine'')
               \<and> vd ''speed'' = Some (PFloat 12.5)
               \<and> vd ''latitude'' = Some (PFloat 21.5)
               \<and> vd ''vessel_name'' = Some PNone
               \<and> vd ''imo_number'' = None)"
  by (simp add: build_vessel_data_def underway_frame_def position_frame_def py_or_def dget_def
      dget_or_def get_navigation_status_def str_int_403456789)

text \<open>
  The cache is bounded through every call: a cache of distinct keys that holds at most
  \<open>MAX_CACHE_SIZE + 1\<close> of them is left by \<^verbatim>\<open>should_update_vessel\<close> with distinct keys and
  at most \<open>MAX_CACHE_SIZE + 1\<close> of them, whatever the call.
\<close>

theorem cache_stays_bounded:
  assumes "distinct (map fst cache)" and "length cache \<le> MAX_CACHE_SIZE + 1"
  shows "distinct (map fst (snd (should_update_vessel env now mmsi nd er cache)))
       \<and> length (snd (should_update_vessel env now mmsi nd er cache)) \<le> MAX_CACHE_SIZE + 1"
proof (cases er)
  case None
  with assms show ?thesis by (simp add: should_update_vessel_def)
next
  case (Some r)
  have "length (evict cache) \<le> MAX_CACHE_SIZE"
  proof (cases "length cache > MAX_CACHE_SIZE")
    case True
    from this assms(1) have "evict cache = take 5000 (sorted_cache cache)" by (rule evict_full)
    then show ?thesis by (simp add: MAX_CACHE_SIZE_def)
  next
    case False
    then show ?thesis by (simp add: evict_def)
  qed
  moreover have "length (AList.update (''vessel_update_'' @ mmsi) now (evict cache))
                   \<le> Suc (length (evict cache))"
    by (rule length_update_le)
  ultimately have "length (snd (should_update_vessel env now mmsi nd (Some r) cache)) \<le> MAX_CACHE_SIZE + 1"
    using should_update_cache_cases[of env now mmsi nd r cache] by auto
  with Some distinct_should_update[OF assms(1), of env now mmsi nd er] show ?thesis by simp
qed

theorem cache_stays_bounded_witness:
  "distinct (map fst (snd (should_update_vessel plain_builtins 20000 ''111'' known_update
                             (Some merge_record) (numbered_cache 10001))))
   \<and> length (snd (should_update_vessel plain_builtins 20000 ''111'' known_update
                     (Some merge_record) (numbered_cache 10001))) \<le> MAX_CACHE_SIZE + 1"
proof -
  have "length (numbered_cache 10001) \<le> MAX_CACHE_SIZE + 1"
    by (simp add: length_numbered_cache MAX_CACHE_SIZE_def)
  from cache_stays_bounded[OF distinct_numbered_cache this] show ?thesis .
qed

end
